theory Spec2Isabelle
  imports Complex_Main "HOL-Library.Sublist"
begin

section \<open>Strings\<close>

text \<open>
  Names, model ids, option ids and colour keys are JavaScript strings, modelled as
  \<open>string\<close> over ASCII. \<open>String.prototype.toLowerCase\<close> and \<open>toUpperCase\<close> map the
  26 letters and leave every other character alone: the codes 65 to 90 are the capital
  letters, 97 to 122 the small ones, and the two ranges differ by 32, which is bit 5 of
  the code. A colour (\<open>THREE.Color\<close>) is modelled by the hex string it was built
  from.
\<close>

definition toLowerChar :: "char \<Rightarrow> char" where
  "toLowerChar c =
     (let n = of_char c :: nat in
      if 65 \<le> n \<and> n \<le> 90
      then (case c of Char b0 b1 b2 b3 b4 b5 b6 b7 \<Rightarrow> Char b0 b1 b2 b3 b4 True b6 b7)
      else c)"

definition toUpperChar :: "char \<Rightarrow> char" where
  "toUpperChar c =
     (let n = of_char c :: nat in
      if 97 \<le> n \<and> n \<le> 122
      then (case c of Char b0 b1 b2 b3 b4 b5 b6 b7 \<Rightarrow> Char b0 b1 b2 b3 b4 False b6 b7)
      else c)"

definition toLowerCase :: "string \<Rightarrow> string" where
  "toLowerCase s = map toLowerChar s"

definition toUpperCase :: "string \<Rightarrow> string" where
  "toUpperCase s = map toUpperChar s"

text \<open>\<open>s.endsWith('E')\<close>, which is also where the pattern \<open>/E$/\<close> matches.\<close>

definition endsWithE :: "string \<Rightarrow> bool" where
  "endsWithE s = (s \<noteq> [] \<and> last s = CHR ''E'')"

text \<open>An optional string used as a condition: \<open>undefined\<close> and \<open>''\<close> are falsy.\<close>

definition truthy :: "string option \<Rightarrow> bool" where
  "truthy s = (case s of None \<Rightarrow> False | Some v \<Rightarrow> v \<noteq> [])"

section \<open>Model ids\<close>

definition DEFAULT_MODEL_IDS :: "string list" where
  "DEFAULT_MODEL_IDS = [''2.9'', ''2.9E'', ''3.3'', ''3.3E'']"

text \<open>\<open>modelId.replace(/E$/, '')\<close>: one trailing \<open>E\<close> is removed.\<close>

definition getBaseModelId :: "string \<Rightarrow> string" where
  "getBaseModelId mid = (if endsWithE mid then butlast mid else mid)"

definition isElectricModel :: "string \<Rightarrow> bool" where
  "isElectricModel mid = endsWithE mid"

section \<open>The scene graph\<close>

text \<open>
  A node of the scene (\<open>THREE.Object3D\<close>) with the fields the viewer reads and writes:
  its name, whether it is a mesh, the \<open>userData.depthMask\<close> flag (set when the field is
  \<open>1\<close> or \<open>true\<close>), the materials bound to it (references into the material store
  below; a single material is a one-element list, as
  \<open>Array.isArray(child.material) ? child.material : [child.material]\<close> makes it), the
  \<open>visible\<close> and \<open>castShadow\<close> flags, and the children.

  The scene the effects work on is the result of \<open>originalScene.clone(true)\<close>.
  \<open>Object3D.clone\<close> and \<open>Object3D.traverse\<close> belong to three.js and are modelled
  below as the library implements them.
\<close>

datatype object3d =
  Object3D (name: string) (isMesh: bool) (depthMask: bool) (material: "nat list")
    (visible: bool) (castShadow: bool) (children: "object3d list")

text \<open>
  \<open>Object3D.traverse(callback)\<close> calls the callback on the node and then traverses
  each child in order: the nodes in pre-order.
\<close>

fun traverse :: "object3d \<Rightarrow> object3d list" where
  "traverse (Object3D n im dm ms v cs ch) =
     Object3D n im dm ms v cs ch # concat (map traverse ch)"

text \<open>
  \<open>Object3D.clone(true)\<close>: \<open>new this.constructor().copy(this, true)\<close>.
  \<open>Object3D.copy\<close> gives the new node the name, the flags and a copy of the user data
  of the source and, being recursive, a clone of every child. \<open>Mesh.copy\<close> then assigns
  \<open>this.material = source.material\<close> (a copy of the array when the material is an
  array): the new mesh is a node of its own, and the materials it is bound to are the
  material objects of the source, not copies of them.
\<close>

fun clone :: "object3d \<Rightarrow> object3d" where
  "clone (Object3D n im dm ms v cs ch) = Object3D n im dm ms v cs (map clone ch)"

section \<open>Group visibility\<close>

record GroupVisibilityMapping =
  groupName :: string
  mappingModelId :: string
  hiddenByDefault :: bool
  linkedOptionId :: "string option"

definition isDepthMask :: "object3d \<Rightarrow> bool" where
  "isDepthMask mesh =
     (depthMask mesh \<or> prefix ''WATER_OCCLUDER'' (toUpperCase (name mesh)))"

text \<open>
  \<open>setGroupVisibility\<close> sets \<open>visible\<close> on the object and, through
  \<open>object.traverse\<close>, on the object again and on every descendant; a mesh that is not
  a depth mask gets \<open>castShadow = visible\<close>.
\<close>

fun setGroupVisibility :: "object3d \<Rightarrow> bool \<Rightarrow> object3d" where
  "setGroupVisibility (Object3D n im dm ms v cs ch) vis =
     Object3D n im dm ms vis
       (if im \<and> \<not> isDepthMask (Object3D n im dm ms v cs ch) then vis else cs)
       (map (\<lambda>c. setGroupVisibility c vis) ch)"

text \<open>
  What the callback of the visibility effect decides for a node of a given name:
  \<open>None\<close> when it returns without calling \<open>setGroupVisibility\<close> (an unnamed node, or
  no mapping found), otherwise the value it passes.
\<close>

definition resolveVisibility ::
  "string \<Rightarrow> GroupVisibilityMapping list \<Rightarrow> string list \<Rightarrow> string \<Rightarrow> bool option" where
  "resolveVisibility mid mappings selected childName =
     (if childName = [] then None
      else if childName = ''el_motor'' then Some (isElectricModel mid)
      else if childName = ''battary_V_4_new'' then Some (isElectricModel mid)
      else
        (case find (\<lambda>m. groupName m = childName \<and> mappingModelId m = getBaseModelId mid)
                mappings of
           None \<Rightarrow> None
         | Some mapping \<Rightarrow>
             if hiddenByDefault mapping then
               (if truthy (linkedOptionId mapping)
                then Some (the (linkedOptionId mapping) \<in> set selected)
                else Some False)
             else Some True))"

definition visibilityCallback ::
  "string \<Rightarrow> GroupVisibilityMapping list \<Rightarrow> string list \<Rightarrow> object3d \<Rightarrow> object3d" where
  "visibilityCallback mid mappings selected child =
     (case resolveVisibility mid mappings selected (name child) of
        None \<Rightarrow> child
      | Some vis \<Rightarrow> setGroupVisibility child vis)"

lemma length_traverse_setGroupVisibility:
  "length (traverse (setGroupVisibility obj vis)) = length (traverse obj)"
proof (induction obj)
  case (Object3D n im dm ms v cs ch)
  have "sum_list (map (\<lambda>c. length (traverse (setGroupVisibility c vis))) ch) =
        sum_list (map (\<lambda>c. length (traverse c)) ch)"
    by (rule arg_cong [where f = sum_list], rule map_cong) (simp_all add: Object3D)
  then show ?case by (simp add: length_concat comp_def)
qed

lemma length_traverse_child:
  assumes "c \<in> set (children obj)"
  shows "length (traverse c) < length (traverse obj)"
proof (cases obj)
  case (Object3D n im dm ms v cs ch)
  from assms have "c \<in> set ch" using Object3D by simp
  then have "length (traverse c) \<le> sum_list (map (\<lambda>c. length (traverse c)) ch)"
    by (simp add: member_le_sum_list)
  then show ?thesis using Object3D by (simp add: length_concat comp_def)
qed

text \<open>
  \<open>scene.traverse\<close> with the callback above. The callback writes only below the node
  it is called on, so the traversal goes on into the children as the callback left them.
\<close>

function applyGroupVisibility ::
  "string \<Rightarrow> GroupVisibilityMapping list \<Rightarrow> string list \<Rightarrow> object3d \<Rightarrow> object3d" where
  "applyGroupVisibility mid mappings selected obj =
     (case visibilityCallback mid mappings selected obj of
        Object3D n im dm mats v cs ch \<Rightarrow>
          Object3D n im dm mats v cs
            (map (applyGroupVisibility mid mappings selected) ch))"
  by pat_completeness auto
termination
proof (relation "measure (\<lambda>(mid, ms, sel, obj). length (traverse obj))", goal_cases)
  case 1
  show ?case by simp
next
  case (2 mid ms sel obj n im dm mats v cs ch c)
  have "length (traverse (visibilityCallback mid ms sel obj)) = length (traverse obj)"
    by (simp add: visibilityCallback_def length_traverse_setGroupVisibility
        split: option.splits)
  moreover have "c \<in> set (children (visibilityCallback mid ms sel obj))"
    using 2 by simp
  ultimately show ?case
    using length_traverse_child [of c "visibilityCallback mid ms sel obj"] by simp
qed


section \<open>Materials and colours\<close>

text \<open>
  A material object with the fields the colour effect reads and writes. \<open>standard\<close>
  says that the object is a \<open>THREE.MeshStandardMaterial\<close>; every loop of the effect
  skips the others. Numbers are JavaScript numbers, here reals; the values written
  (\<open>0\<close>, \<open>0.5\<close>, \<open>1\<close>) are exact in both.

  Material objects are shared: several meshes may hold the same object. The scene
  therefore holds references (\<open>nat\<close>) and the objects live in a store.
\<close>

record Material =
  mat_name :: string
  standard :: bool
  mat_color :: string
  metalness :: real
  roughness :: real
  opacity :: real
  transparent :: bool
  needsUpdate :: bool

type_synonym materials = "nat \<Rightarrow> Material"

datatype MaterialType = Fiberglass | FullCarbon

datatype HullColorMode = White | Grey

text \<open>The props of \<open>BoatModel\<close> that the colour effect depends on.\<close>

record BoatModelProps =
  modelId :: string
  color :: string
  materialType :: MaterialType
  useCustomColor :: bool
  hullColorMode :: HullColorMode
  softDeckColor :: "string option"

text \<open>\<open>originalColors.current\<close>: the two optional snapshots.\<close>

record originalColors =
  white :: "string option"
  grey :: "string option"

definition MATERIAL_MESHES_BY_MODEL :: "(string \<times> string list) list" where
  "MATERIAL_MESHES_BY_MODEL =
    [(''2.9'', [''mesh1700'', ''mesh1677'', ''mesh1676'', ''mesh1675'', ''mesh1674'', ''mesh1701'',
               ''mesh1673'', ''mesh1672'', ''mesh1702'', ''mesh1671'', ''mesh1670'']),
     (''2.9E'', [''mesh1700'', ''mesh1677'', ''mesh1676'', ''mesh1675'', ''mesh1674'', ''mesh1701'',
               ''mesh1673'', ''mesh1672'', ''mesh1702'', ''mesh1671'', ''mesh1670'']),
     (''3.3'', [''mesh98'', ''mesh105'', ''mesh1023'', ''mesh134'', ''mesh135'', ''mesh32'',
               ''mesh34'', ''mesh35'', ''mesh20'', ''mesh36'', ''mesh37'']),
     (''3.3E'', [''mesh98'', ''mesh105'', ''mesh1023'', ''mesh134'', ''mesh135'', ''mesh32'',
               ''mesh34'', ''mesh35'', ''mesh20'', ''mesh36'', ''mesh37''])]"

definition SOFT_DECK_MESHES_BY_MODEL :: "(string \<times> string list) list" where
  "SOFT_DECK_MESHES_BY_MODEL =
    [(''2.9'', [''mesh304'', ''mesh305'', ''mesh1712'', ''mesh16'', ''mesh293'', ''mesh1709'',
               ''mesh6'', ''mesh5'', ''mesh1710'', ''mesh8'', ''mesh7'']),
     (''2.9E'', [''mesh304'', ''mesh305'', ''mesh1712'', ''mesh16'', ''mesh293'', ''mesh1709'',
               ''mesh6'', ''mesh5'', ''mesh1710'', ''mesh8'', ''mesh7'']),
     (''3.3'', [''mesh983'', ''mesh984'', ''mesh1042'', ''mesh1040'', ''mesh1043'', ''mesh1044'',
               ''mesh1057'', ''mesh1055'', ''mesh1056'', ''mesh1054'', ''mesh1053'']),
     (''3.3E'', [''mesh983'', ''mesh984'', ''mesh1042'', ''mesh1040'', ''mesh1043'', ''mesh1044'',
               ''mesh1057'', ''mesh1055'', ''mesh1056'', ''mesh1054'', ''mesh1053''])]"

definition STRIP_MESHES_BY_MODEL :: "(string \<times> string list) list" where
  "STRIP_MESHES_BY_MODEL =
    [(''2.9'', [''mesh0'', ''mesh1'', ''mesh1711'', ''mesh2'', ''mesh3'', ''mesh9'', ''mesh14'',
               ''mesh13'', ''mesh1713'', ''mesh12'', ''mesh11'']),
     (''2.9E'', [''mesh0'', ''mesh1'', ''mesh1711'', ''mesh2'', ''mesh3'', ''mesh9'', ''mesh14'',
               ''mesh13'', ''mesh1713'', ''mesh12'', ''mesh11'']),
     (''3.3'', [''mesh1051'', ''mesh1050'', ''mesh1049'', ''mesh1048'', ''mesh1047'', ''mesh1052'',
               ''mesh1058'', ''mesh1059'', ''mesh1060'', ''mesh1061'', ''mesh1062'']),
     (''3.3E'', [''mesh1051'', ''mesh1050'', ''mesh1049'', ''mesh1048'', ''mesh1047'', ''mesh1052'',
               ''mesh1058'', ''mesh1059'', ''mesh1060'', ''mesh1061'', ''mesh1062''])]"

text \<open>
  \<open>TABLE[modelId] || []\<close> for a model id that is a key of the table, or no
  property of the table object at all. For the name of a property that every object
  inherits, such as \<open>constructor\<close> or \<open>toString\<close>, the expression yields that
  property, which is no list; that case is outside this model, and the statements below
  that depend on the lists of a model are made for the ids of \<open>DEFAULT_MODEL_IDS\<close>.
\<close>

definition meshesFor :: "(string \<times> string list) list \<Rightarrow> string \<Rightarrow> string list" where
  "meshesFor table mid = (case map_of table mid of None \<Rightarrow> [] | Some l \<Rightarrow> l)"

text \<open>The once-per-scene effect that collects the original hull colours.\<close>

definition captureMaterial :: "Material \<Rightarrow> originalColors \<Rightarrow> originalColors" where
  "captureMaterial mat oc =
     (if \<not> standard mat then oc
      else
        let matName = toLowerCase (mat_name mat) in
        if matName = ''hull_white'' \<and> white oc = None then oc\<lparr>white := Some (mat_color mat)\<rparr>
        else if matName = ''hull_grey'' \<and> grey oc = None then oc\<lparr>grey := Some (mat_color mat)\<rparr>
        else oc)"

definition captureOriginalColors :: "object3d \<Rightarrow> materials \<Rightarrow> originalColors" where
  "captureOriginalColors scene st =
     fold (\<lambda>child oc.
            if \<not> isMesh child then oc
            else fold (\<lambda>i. captureMaterial (st i)) (material child) oc)
       (traverse scene) \<lparr>white = None, grey = None\<rparr>"

text \<open>\<open>materials.forEach\<close> with a body that writes into the material it is given.\<close>

definition forEachMaterial :: "(Material \<Rightarrow> Material) \<Rightarrow> nat list \<Rightarrow> materials \<Rightarrow> materials" where
  "forEachMaterial f mats st = fold (\<lambda>i s. s(i := f (s i))) mats st"

text \<open>
  The two tests in front of the hull colours: the material is a
  \<open>MeshStandardMaterial\<close> and its lower-cased name is one of the two hull names.
\<close>

definition isHullMaterial :: "Material \<Rightarrow> bool" where
  "isHullMaterial mat =
     (standard mat \<and>
      (toLowerCase (mat_name mat) = ''hull_white'' \<or> toLowerCase (mat_name mat) = ''hull_grey''))"

text \<open>
  The strings \<open>ConfiguratorContent\<close> passes as \<open>color\<close>: \<open>#FFFFFF\<close>, or the
  custom hull colour, which starts as \<open>#FF6B00\<close> and is afterwards the value of an
  \<open><input type="color">\<close>: a \<open>#\<close> and six hexadecimal digits.
\<close>

definition isHexDigit :: "char \<Rightarrow> bool" where
  "isHexDigit c = (c \<in> set ''0123456789abcdefABCDEF'')"

definition isHexColor :: "string \<Rightarrow> bool" where
  "isHexColor s =
     (case s of
        [] \<Rightarrow> False
      | c # ds \<Rightarrow> c = CHR ''#'' \<and> length ds = 6 \<and> list_all isHexDigit ds)"

text \<open>
  The body of the first loop: the hull colours. \<open>mat.color.set(color)\<close> is modelled
  for a \<open>color\<close> of the form above, which \<open>THREE.Color\<close> parses and stores; what
  \<open>THREE.Color.set\<close> does with another string is the library's and outside this
  model.
\<close>

definition applyHullColor :: "BoatModelProps \<Rightarrow> originalColors \<Rightarrow> Material \<Rightarrow> Material" where
  "applyHullColor p oc mat =
     (if \<not> isHullMaterial mat then mat
      else if useCustomColor p then mat\<lparr>mat_color := color p, needsUpdate := True\<rparr>
      else
        let whiteColor = (case white oc of Some c \<Rightarrow> c | None \<Rightarrow> ''#ECECE8'');
            greyColor = (case grey oc of Some c \<Rightarrow> c | None \<Rightarrow> ''#9EA0A1'')
        in if hullColorMode p = White then mat\<lparr>mat_color := whiteColor, needsUpdate := True\<rparr>
           else mat\<lparr>mat_color := greyColor, needsUpdate := True\<rparr>)"

text \<open>\<open>(TABLE[modelId] || []).map((n) => n.toLowerCase())\<close> for the two accent lists.\<close>

definition softDeckMeshes :: "BoatModelProps \<Rightarrow> string list" where
  "softDeckMeshes p = map toLowerCase (meshesFor SOFT_DECK_MESHES_BY_MODEL (modelId p))"

definition stripMeshes :: "BoatModelProps \<Rightarrow> string list" where
  "stripMeshes p = map toLowerCase (meshesFor STRIP_MESHES_BY_MODEL (modelId p))"

text \<open>
  The condition of the material-type rule:
  \<open>materialMeshes.includes(meshName) && !softDeckMeshes.includes(meshName) &&
  !stripMeshes.includes(meshName)\<close>.
\<close>

definition isMaterialTypeMesh :: "BoatModelProps \<Rightarrow> object3d \<Rightarrow> bool" where
  "isMaterialTypeMesh p child =
     (let meshName = toLowerCase (name child) in
      meshName \<in> set (meshesFor MATERIAL_MESHES_BY_MODEL (modelId p)) \<and>
      meshName \<notin> set (softDeckMeshes p) \<and> meshName \<notin> set (stripMeshes p))"

definition isSoftDeckMesh :: "BoatModelProps \<Rightarrow> object3d \<Rightarrow> bool" where
  "isSoftDeckMesh p child = (toLowerCase (name child) \<in> set (softDeckMeshes p))"

definition isStripMesh :: "BoatModelProps \<Rightarrow> object3d \<Rightarrow> bool" where
  "isStripMesh p child = (toLowerCase (name child) \<in> set (stripMeshes p))"

text \<open>The body of the material-type loop.\<close>

definition applyMaterialType :: "BoatModelProps \<Rightarrow> Material \<Rightarrow> Material" where
  "applyMaterialType p mat =
     (if \<not> standard mat then mat
      else mat\<lparr>mat_color := (if materialType p = FullCarbon then ''#0A0C10'' else ''#C7C7C7''),
               metalness := 0.5, roughness := 0.5, opacity := 1, transparent := False,
               needsUpdate := True\<rparr>)"

text \<open>The pair \<open>(softDeckHex, stripHex)\<close> chosen from the selection.\<close>

definition softDeckPair :: "string \<Rightarrow> string \<times> string" where
  "softDeckPair key =
     (let sel = toUpperCase key in
      if sel = ''#9D622BFF'' then (''#9D622B'', ''#FFFDFC'')
      else if sel = ''#BCBCBCFF'' then (''#939393'', ''#FFFDFC'')
      else if sel = ''#95070BFF'' then (''#939393'', ''#95070B'')
      else (''#9D622B'', ''#FFFDFC''))"

text \<open>The body of the soft deck loop and of the strip loop, for the hex given.\<close>

definition applyAccent :: "string \<Rightarrow> Material \<Rightarrow> Material" where
  "applyAccent hex mat =
     (if \<not> standard mat then mat
      else mat\<lparr>mat_color := hex, metalness := 0, roughness := 1, opacity := 1,
               transparent := False, needsUpdate := True\<rparr>)"

text \<open>The soft deck and strip rule of the callback: \<open>if (softDeckColor) { ... }\<close>.\<close>

definition softDeckRule :: "BoatModelProps \<Rightarrow> object3d \<Rightarrow> materials \<Rightarrow> materials" where
  "softDeckRule p child st =
     (if truthy (softDeckColor p) then
        let softDeckHex = fst (softDeckPair (the (softDeckColor p)));
            stripHex = snd (softDeckPair (the (softDeckColor p)));
            st1 = (if isSoftDeckMesh p child
                   then forEachMaterial (applyAccent softDeckHex) (material child) st else st)
        in if isStripMesh p child
           then forEachMaterial (applyAccent stripHex) (material child) st1 else st1
      else st)"

text \<open>The callback of the colour effect, for one node of the scene.\<close>

definition colorCallback ::
  "BoatModelProps \<Rightarrow> originalColors \<Rightarrow> object3d \<Rightarrow> materials \<Rightarrow> materials" where
  "colorCallback p oc child st =
     (if \<not> isMesh child then st
      else
        let st1 = forEachMaterial (applyHullColor p oc) (material child) st;
            st2 = (if isMaterialTypeMesh p child
                   then forEachMaterial (applyMaterialType p) (material child) st1 else st1)
        in softDeckRule p child st2)"

text \<open>The colour effect: \<open>scene.traverse\<close> with the callback.\<close>

definition applyColors ::
  "BoatModelProps \<Rightarrow> originalColors \<Rightarrow> object3d \<Rightarrow> materials \<Rightarrow> materials" where
  "applyColors p oc scene st = fold (colorCallback p oc) (traverse scene) st"

text \<open>
  What \<open>ConfiguratorContent\<close> passes as \<open>softDeckColor\<close>:
  \<open>configuration.optionIds.includes('soft-deck') ? softDeckColor : undefined\<close>.
\<close>

definition viewerSoftDeckColor :: "string list \<Rightarrow> string option \<Rightarrow> string option" where
  "viewerSoftDeckColor optionIds softDeckColorState =
     (if ''soft-deck'' \<in> set optionIds then softDeckColorState else None)"

section \<open>The motion animator\<close>

datatype WaveMode = Ocean | DryDock

text \<open>
  The rotations and the height written by the frame callback of \<open>BoatWithRocking\<close>.
  \<open>Math.sin\<close> and \<open>Math.cos\<close> are the real functions; \<open>pitchOffset\<close> is the
  constant \<open>0\<close>. The callback returns at once while one of the two groups is not
  mounted: the rig is then \<open>None\<close>.
\<close>

record rig =
  boat_rotation_x :: real
  boat_rotation_y :: real
  boat_rotation_z :: real
  boat_position_y :: real
  pitchGroup_rotation_x :: real
  pitchGroup_rotation_y :: real
  pitchGroup_rotation_z :: real

definition pitchOffset :: real where
  "pitchOffset = 0"

definition rockingFrame :: "WaveMode \<Rightarrow> real \<Rightarrow> rig option \<Rightarrow> rig option" where
  "rockingFrame waveMode t r =
     (case r of
        None \<Rightarrow> None
      | Some g \<Rightarrow>
          let g0 = g\<lparr>boat_rotation_x := 0, boat_rotation_y := 0,
                     pitchGroup_rotation_y := 0, pitchGroup_rotation_z := 0\<rparr>
          in if waveMode = Ocean then
               Some (g0\<lparr>boat_position_y := 0.32,
                        pitchGroup_rotation_x := pitchOffset + sin (t * 1.2) * 0.0075,
                        boat_rotation_z := cos (t * 1.1) * 0.00625\<rparr>)
             else
               Some (g0\<lparr>boat_position_y := 0.34,
                        pitchGroup_rotation_x := pitchOffset,
                        boat_rotation_z := 0\<rparr>))"

text \<open>\<open>{waveMode === 'ocean' && <OceanWater ... />}\<close>.\<close>

definition rendersOceanWater :: "WaveMode \<Rightarrow> bool" where
  "rendersOceanWater waveMode = (waveMode = Ocean)"

section \<open>The orbit controls wrapper\<close>

text \<open>
  The state the pointer handlers and the frame callback of \<open>OrbitControlsWrapper\<close>
  share: the two refs, the flags of the controls object (\<open>None\<close> while
  \<open>controlsRef.current\<close> is null) and the camera height. What \<open>controls.update()\<close>
  and the library's own pointer handling do to the camera is not part of this
  repository; a change of the camera height from there is the event \<open>CameraMoved\<close>.
\<close>

record controls =
  enableRotate :: bool
  enableZoom :: bool
  enablePan :: bool

record wrapper =
  rmbActiveRef :: bool
  initialCameraYRef :: "real option"
  controlsRef :: "controls option"
  camera_position_y :: real

definition onDown :: "nat \<Rightarrow> wrapper \<Rightarrow> wrapper" where
  "onDown button w =
     (if button = 1 then w
      else if button = 2 then
        let w1 = w\<lparr>rmbActiveRef := True\<rparr>;
            w2 = (case controlsRef w1 of
                    None \<Rightarrow> w1
                  | Some c \<Rightarrow>
                      w1\<lparr>controlsRef :=
                           Some (c\<lparr>enableRotate := False, enableZoom := False,
                                    enablePan := True\<rparr>)\<rparr>)
        in if initialCameraYRef w2 = None
           then w2\<lparr>initialCameraYRef := Some (camera_position_y w2)\<rparr> else w2
      else w)"

definition onUp :: "nat \<Rightarrow> wrapper \<Rightarrow> wrapper" where
  "onUp button w =
     (if button = 2 then
        let w1 = w\<lparr>rmbActiveRef := False\<rparr>
        in (case controlsRef w1 of
              None \<Rightarrow> w1
            | Some c \<Rightarrow>
                w1\<lparr>controlsRef := Some (c\<lparr>enableRotate := True, enableZoom := True\<rparr>)\<rparr>)
      else w)"

text \<open>The camera part of the frame callback, up to the call of \<open>controls.update()\<close>.\<close>

definition controlsFrame :: "wrapper \<Rightarrow> wrapper" where
  "controlsFrame w =
     (case controlsRef w of
        None \<Rightarrow> w
      | Some c \<Rightarrow>
          (case initialCameraYRef w of
             None \<Rightarrow> w
           | Some y0 \<Rightarrow>
               if rmbActiveRef w \<and> \<bar>camera_position_y w - y0\<bar> > 0.000001
               then w\<lparr>camera_position_y := y0\<rparr> else w))"

datatype pointerEvent = Down nat | Up nat | Frame | CameraMoved real

fun handleEvent :: "pointerEvent \<Rightarrow> wrapper \<Rightarrow> wrapper" where
  "handleEvent (Down button) w = onDown button w"
| "handleEvent (Up button) w = onUp button w"
| "handleEvent Frame w = controlsFrame w"
| "handleEvent (CameraMoved y) w = w\<lparr>camera_position_y := y\<rparr>"

definition runEvents :: "pointerEvent list \<Rightarrow> wrapper \<Rightarrow> wrapper" where
  "runEvents es w = fold handleEvent es w"

section \<open>Sample inputs\<close>

text \<open>
  Shorthand for the concrete scenes, materials and props at which the theorems below are
  instantiated: a standard material with a name and a colour, the props of model
  \<open>2.9\<close>, a visible mesh, a visible group, and a small boat with a hull mesh, one
  mesh of the material-type list and one mesh of the soft deck list.
\<close>

abbreviation stdMaterial :: "string \<Rightarrow> string \<Rightarrow> Material" where
  "stdMaterial n c \<equiv>
     \<lparr>mat_name = n, standard = True, mat_color = c, metalness = 0, roughness = 1,
      opacity = 1, transparent = False, needsUpdate = False\<rparr>"

abbreviation props29 ::
  "MaterialType \<Rightarrow> bool \<Rightarrow> HullColorMode \<Rightarrow> string option \<Rightarrow> BoatModelProps" where
  "props29 mt custom mode deck \<equiv>
     \<lparr>modelId = ''2.9'', color = ''#FF6B00'', materialType = mt, useCustomColor = custom,
      hullColorMode = mode, softDeckColor = deck\<rparr>"

abbreviation sampleMesh :: "string \<Rightarrow> nat list \<Rightarrow> object3d" where
  "sampleMesh n mats \<equiv> Object3D n True False mats True False []"

abbreviation sampleGroup :: "string \<Rightarrow> object3d list \<Rightarrow> object3d" where
  "sampleGroup n ch \<equiv> Object3D n False False [] True False ch"

abbreviation sampleBoat :: object3d where
  "sampleBoat \<equiv>
     sampleGroup ''boat''
       [sampleMesh ''hull'' [0], sampleMesh ''mesh1700'' [1], sampleMesh ''Mesh304'' [2]]"

abbreviation sampleMaterials :: materials where
  "sampleMaterials \<equiv>
     (\<lambda>i. if i = 0 then stdMaterial ''hull_white'' ''#F0F0F0''
          else stdMaterial ''gelcoat'' ''#222222'')"

declare applyGroupVisibility.simps [simp del]

section \<open>Facts about the visibility pass\<close>

lemma filter_empty_iff: "filter P xs = [] \<Longrightarrow> x \<in> set xs \<Longrightarrow> \<not> P x"
  by (simp add: filter_empty_conv)

lemma isDepthMask_Object3D:
  "isDepthMask (Object3D n im dm ms v cs ch) =
     (dm \<or> prefix ''WATER_OCCLUDER'' (toUpperCase n))"
  by (simp add: isDepthMask_def)

lemma name_setGroupVisibility: "name (setGroupVisibility obj vis) = name obj"
  by (cases obj) simp

lemma visible_setGroupVisibility: "visible (setGroupVisibility obj vis) = vis"
  by (cases obj) simp

lemma name_visibilityCallback: "name (visibilityCallback mid ms sel obj) = name obj"
  by (simp add: visibilityCallback_def name_setGroupVisibility split: option.splits)

lemma visible_visibilityCallback:
  "resolveVisibility mid ms sel (name obj) = Some b \<Longrightarrow>
   visible (visibilityCallback mid ms sel obj) = b"
  by (simp add: visibilityCallback_def visible_setGroupVisibility)

lemma traverse_setGroupVisibility_visible:
  "d \<in> set (traverse (setGroupVisibility obj vis)) \<Longrightarrow> visible d = vis"
proof (induction obj arbitrary: d)
  case (Object3D n im dm ms v cs ch)
  then show ?case by auto
qed

lemma traverse_applyGroupVisibility:
  "traverse (applyGroupVisibility mid ms sel obj) =
     applyGroupVisibility mid ms sel obj #
     concat (map (\<lambda>c. traverse (applyGroupVisibility mid ms sel c))
       (children (visibilityCallback mid ms sel obj)))"
  by (cases "visibilityCallback mid ms sel obj")
     (simp add: applyGroupVisibility.simps [of mid ms sel obj] comp_def)

lemma name_applyGroupVisibility: "name (applyGroupVisibility mid ms sel obj) = name obj"
  using name_visibilityCallback [of mid ms sel obj]
  by (cases "visibilityCallback mid ms sel obj")
     (simp add: applyGroupVisibility.simps [of mid ms sel obj])

lemma visible_applyGroupVisibility:
  "visible (applyGroupVisibility mid ms sel obj) =
     visible (visibilityCallback mid ms sel obj)"
  by (cases "visibilityCallback mid ms sel obj")
     (simp add: applyGroupVisibility.simps [of mid ms sel obj])

text \<open>
  After the pass, a node whose own name the callback resolves has the resolved value,
  whatever an ancestor's entry wrote into it before.
\<close>

lemma applyGroupVisibility_resolved:
  "d \<in> set (traverse (applyGroupVisibility mid ms sel obj)) \<Longrightarrow>
   resolveVisibility mid ms sel (name d) = Some b \<Longrightarrow> visible d = b"
proof (induction mid ms sel obj arbitrary: d rule: applyGroupVisibility.induct)
  case (1 mid ms sel obj)
  obtain n im dm mats v cs ch where cb:
    "visibilityCallback mid ms sel obj = Object3D n im dm mats v cs ch"
    by (cases "visibilityCallback mid ms sel obj") blast
  from "1.prems"(1) consider
    (root) "d = applyGroupVisibility mid ms sel obj"
  | (below) c where "c \<in> set ch" "d \<in> set (traverse (applyGroupVisibility mid ms sel c))"
    by (subst (asm) traverse_applyGroupVisibility) (auto simp: cb)
  then show ?case
  proof cases
    case root
    then show ?thesis
      using "1.prems"(2)
      by (simp add: name_applyGroupVisibility visible_applyGroupVisibility
          visible_visibilityCallback)
  next
    case below
    then show ?thesis using "1.IH" [OF cb] "1.prems"(2) by blast
  qed
qed

text \<open>
  Two model ids under which the callback resolves the same value for every name in the
  scene give the same scene after the pass.
\<close>

lemma names_setGroupVisibility:
  "map name (traverse (setGroupVisibility obj vis)) = map name (traverse obj)"
proof (induction obj)
  case (Object3D n im dm ms v cs ch)
  have "concat (map (\<lambda>c. map name (traverse (setGroupVisibility c vis))) ch) =
        concat (map (\<lambda>c. map name (traverse c)) ch)"
    by (rule arg_cong [where f = concat], rule map_cong) (simp_all add: Object3D)
  then show ?case by (simp add: map_concat comp_def)
qed

lemma names_visibilityCallback:
  "map name (traverse (visibilityCallback mid ms sel obj)) = map name (traverse obj)"
  by (simp add: visibilityCallback_def names_setGroupVisibility split: option.splits)

lemma traverse_child_subset:
  "c \<in> set (children obj) \<Longrightarrow> set (traverse c) \<subseteq> set (traverse obj)"
  by (cases obj) auto

lemma applyGroupVisibility_cong:
  assumes "\<And>d. d \<in> set (traverse obj) \<Longrightarrow>
             resolveVisibility m1 ms sel (name d) = resolveVisibility m2 ms sel (name d)"
  shows "applyGroupVisibility m1 ms sel obj = applyGroupVisibility m2 ms sel obj"
  using assms
proof (induction m1 ms sel obj rule: applyGroupVisibility.induct)
  case (1 m1 ms sel obj)
  have root: "obj \<in> set (traverse obj)" by (cases obj) simp
  have cb: "visibilityCallback m1 ms sel obj = visibilityCallback m2 ms sel obj"
    using "1.prems" [OF root] by (simp add: visibilityCallback_def)
  obtain n im dm mats v cs ch where o:
    "visibilityCallback m1 ms sel obj = Object3D n im dm mats v cs ch"
    by (cases "visibilityCallback m1 ms sel obj") blast
  have "applyGroupVisibility m1 ms sel c = applyGroupVisibility m2 ms sel c" if c: "c \<in> set ch" for c
  proof (rule "1.IH" [OF o c])
    fix d
    assume d: "d \<in> set (traverse c)"
    have "d \<in> set (traverse (visibilityCallback m1 ms sel obj))"
      using traverse_child_subset [of c "visibilityCallback m1 ms sel obj"] c d o by auto
    then have "name d \<in> set (map name (traverse (visibilityCallback m1 ms sel obj)))"
      by simp
    then have "name d \<in> set (map name (traverse obj))"
      by (simp only: names_visibilityCallback)
    then obtain e where "e \<in> set (traverse obj)" "name e = name d" by auto
    then show "resolveVisibility m1 ms sel (name d) = resolveVisibility m2 ms sel (name d)"
      using "1.prems" [of e] by simp
  qed
  then have "map (applyGroupVisibility m1 ms sel) ch = map (applyGroupVisibility m2 ms sel) ch"
    by simp
  then show ?case
    using o cb
    by (simp add: applyGroupVisibility.simps [of m1 ms sel obj]
        applyGroupVisibility.simps [of m2 ms sel obj])
qed

section \<open>Facts about the colour pass\<close>

lemma toLowerChar_letters:
  "map toLowerChar ''ABCDEFGHIJKLMNOPQRSTUVWXYZ'' = ''abcdefghijklmnopqrstuvwxyz''"
  "map toUpperChar ''abcdefghijklmnopqrstuvwxyz'' = ''ABCDEFGHIJKLMNOPQRSTUVWXYZ''"
  by (simp_all add: toLowerChar_def toUpperChar_def)

lemma deck_strip_disjoint: "set (softDeckMeshes p) \<inter> set (stripMeshes p) = {}"
proof -
  consider (a) "modelId p = ''2.9''" | (b) "modelId p = ''2.9E''" | (c) "modelId p = ''3.3''"
    | (d) "modelId p = ''3.3E''"
    | (e) "modelId p \<noteq> ''2.9''" "modelId p \<noteq> ''2.9E''" "modelId p \<noteq> ''3.3''"
        "modelId p \<noteq> ''3.3E''"
    by blast
  then show ?thesis
  proof cases
    case a
    show ?thesis
      by (simp add: softDeckMeshes_def stripMeshes_def meshesFor_def a
          SOFT_DECK_MESHES_BY_MODEL_def STRIP_MESHES_BY_MODEL_def toLowerCase_def
          toLowerChar_def Int_insert_left del: Int_insert_left_if0 Int_insert_left_if1)
  next
    case b
    show ?thesis
      by (simp add: softDeckMeshes_def stripMeshes_def meshesFor_def b
          SOFT_DECK_MESHES_BY_MODEL_def STRIP_MESHES_BY_MODEL_def toLowerCase_def
          toLowerChar_def Int_insert_left del: Int_insert_left_if0 Int_insert_left_if1)
  next
    case c
    show ?thesis
      by (simp add: softDeckMeshes_def stripMeshes_def meshesFor_def c
          SOFT_DECK_MESHES_BY_MODEL_def STRIP_MESHES_BY_MODEL_def toLowerCase_def
          toLowerChar_def Int_insert_left del: Int_insert_left_if0 Int_insert_left_if1)
  next
    case d
    show ?thesis
      by (simp add: softDeckMeshes_def stripMeshes_def meshesFor_def d
          SOFT_DECK_MESHES_BY_MODEL_def STRIP_MESHES_BY_MODEL_def toLowerCase_def
          toLowerChar_def Int_insert_left del: Int_insert_left_if0 Int_insert_left_if1)
  next
    case e
    then show ?thesis
      by (simp add: softDeckMeshes_def stripMeshes_def meshesFor_def
          SOFT_DECK_MESHES_BY_MODEL_def STRIP_MESHES_BY_MODEL_def)
  qed
qed

lemma forEachMaterial_apply:
  assumes "\<And>m. f (f m) = f m"
  shows "forEachMaterial f mats st j = (if j \<in> set mats then f (st j) else st j)"
  unfolding forEachMaterial_def
proof (induction mats arbitrary: st)
  case Nil
  then show ?case by simp
next
  case (Cons i mats)
  then show ?case using assms by simp
qed

lemma isHullMaterial_update [simp]:
  "isHullMaterial (m\<lparr>mat_color := c\<rparr>) = isHullMaterial m"
  "isHullMaterial (m\<lparr>needsUpdate := b\<rparr>) = isHullMaterial m"
  "isHullMaterial (m\<lparr>metalness := r\<rparr>) = isHullMaterial m"
  "isHullMaterial (m\<lparr>roughness := r\<rparr>) = isHullMaterial m"
  "isHullMaterial (m\<lparr>opacity := r\<rparr>) = isHullMaterial m"
  "isHullMaterial (m\<lparr>transparent := b\<rparr>) = isHullMaterial m"
  by (simp_all add: isHullMaterial_def)

lemma applyHullColor_idem: "applyHullColor p oc (applyHullColor p oc m) = applyHullColor p oc m"
  by (simp add: applyHullColor_def Let_def)

lemma applyMaterialType_idem: "applyMaterialType p (applyMaterialType p m) = applyMaterialType p m"
  by (simp add: applyMaterialType_def)

lemma applyAccent_idem: "applyAccent hex (applyAccent hex m) = applyAccent hex m"
  by (simp add: applyAccent_def)

lemma softDeckRule_apply:
  "softDeckRule p child st j =
     (if truthy (softDeckColor p) \<and> j \<in> set (material child) then
        (let m1 = (if isSoftDeckMesh p child
                   then applyAccent (fst (softDeckPair (the (softDeckColor p)))) (st j) else st j)
         in if isStripMesh p child
            then applyAccent (snd (softDeckPair (the (softDeckColor p)))) m1 else m1)
      else st j)"
  by (simp add: softDeckRule_def Let_def forEachMaterial_apply applyAccent_idem)

lemma colorCallback_apply:
  "colorCallback p oc child st j =
     (if isMesh child \<and> j \<in> set (material child) then
        (let m1 = applyHullColor p oc (st j);
             m2 = (if isMaterialTypeMesh p child then applyMaterialType p m1 else m1);
             m3 = (if truthy (softDeckColor p) \<and> isSoftDeckMesh p child
                   then applyAccent (fst (softDeckPair (the (softDeckColor p)))) m2 else m2)
         in if truthy (softDeckColor p) \<and> isStripMesh p child
            then applyAccent (snd (softDeckPair (the (softDeckColor p)))) m3 else m3)
      else st j)"
  by (simp add: colorCallback_def softDeckRule_apply Let_def forEachMaterial_apply
      applyHullColor_idem applyMaterialType_idem)

lemma applyHullColor_fields [simp]:
  "mat_name (applyHullColor p oc m) = mat_name m"
  "standard (applyHullColor p oc m) = standard m"
  by (simp_all add: applyHullColor_def Let_def)

lemma applyMaterialType_fields [simp]:
  "mat_name (applyMaterialType p m) = mat_name m"
  "standard (applyMaterialType p m) = standard m"
  by (simp_all add: applyMaterialType_def)

lemma applyAccent_fields [simp]:
  "mat_name (applyAccent hex m) = mat_name m"
  "standard (applyAccent hex m) = standard m"
  by (simp_all add: applyAccent_def)

lemma mat_color_applyAccent:
  "mat_color (applyAccent hex m) = (if standard m then hex else mat_color m)"
  by (simp add: applyAccent_def)

lemma mat_color_applyMaterialType:
  "mat_color (applyMaterialType p m) =
     (if standard m then (if materialType p = FullCarbon then ''#0A0C10'' else ''#C7C7C7'')
      else mat_color m)"
  by (simp add: applyMaterialType_def)

lemma mat_color_applyHullColor:
  "mat_color (applyHullColor p oc m) =
     (if isHullMaterial m then
        (if useCustomColor p then color p
         else if hullColorMode p = White
           then (case white oc of Some c \<Rightarrow> c | None \<Rightarrow> ''#ECECE8'')
           else (case grey oc of Some c \<Rightarrow> c | None \<Rightarrow> ''#9EA0A1''))
      else mat_color m)"
  by (simp add: applyHullColor_def Let_def)

lemma mat_name_colorCallback: "mat_name (colorCallback p oc child st j) = mat_name (st j)"
  by (simp add: colorCallback_apply Let_def)

lemma standard_colorCallback: "standard (colorCallback p oc child st j) = standard (st j)"
  by (simp add: colorCallback_apply Let_def)

lemma isHullMaterial_colorCallback:
  "isHullMaterial (colorCallback p oc child st j) = isHullMaterial (st j)"
  by (simp add: isHullMaterial_def mat_name_colorCallback standard_colorCallback)

lemma colorCallback_unbound:
  "\<not> (isMesh child \<and> j \<in> set (material child)) \<Longrightarrow> colorCallback p oc child st j = st j"
  by (auto simp add: colorCallback_apply)

lemma colorCallback_nonstandard:
  "\<not> standard (st j) \<Longrightarrow> colorCallback p oc child st j = st j"
  by (simp add: colorCallback_apply Let_def applyHullColor_def isHullMaterial_def
      applyMaterialType_def applyAccent_def)

lemma mat_color_colorCallback_bound:
  assumes "isMesh child" "j \<in> set (material child)" "standard (st j)"
  shows "mat_color (colorCallback p oc child st j) =
        (if truthy (softDeckColor p) \<and> isStripMesh p child
           then snd (softDeckPair (the (softDeckColor p)))
         else if truthy (softDeckColor p) \<and> isSoftDeckMesh p child
           then fst (softDeckPair (the (softDeckColor p)))
         else if isMaterialTypeMesh p child
           then (if materialType p = FullCarbon then ''#0A0C10'' else ''#C7C7C7'')
         else mat_color (applyHullColor p oc (st j)))"
  using assms by (simp add: colorCallback_apply Let_def mat_color_applyAccent
      mat_color_applyMaterialType)

lemma colorCallback_dichotomy:
  assumes mid: "modelId p' = modelId p" and sdc: "softDeckColor p' = softDeckColor p"
    and nm: "mat_name (s' j) = mat_name (s j)" and sd: "standard (s' j) = standard (s j)"
    and hull: "isHullMaterial (s j) \<Longrightarrow>
           color p' = color p \<and> useCustomColor p' = useCustomColor p \<and>
           hullColorMode p' = hullColorMode p"
    and mt: "isMesh child \<Longrightarrow> j \<in> set (material child) \<Longrightarrow> isMaterialTypeMesh p child \<Longrightarrow>
           materialType p' = materialType p"
  shows "(mat_color (colorCallback p oc child s j) = mat_color (s j) \<and>
          mat_color (colorCallback p' oc child s' j) = mat_color (s' j)) \<or>
         mat_color (colorCallback p oc child s j) = mat_color (colorCallback p' oc child s' j)"
proof (cases "isMesh child \<and> j \<in> set (material child) \<and> standard (s j)")
  case False
  then have "colorCallback p oc child s j = s j" "colorCallback p' oc child s' j = s' j"
    using sd colorCallback_unbound colorCallback_nonstandard by metis+
  then show ?thesis by simp
next
  case True
  have h: "isHullMaterial (s' j) = isHullMaterial (s j)"
    using nm sd by (simp add: isHullMaterial_def)
  have m: "isMaterialTypeMesh p' child = isMaterialTypeMesh p child"
    using mid by (simp add: isMaterialTypeMesh_def softDeckMeshes_def stripMeshes_def)
  have d: "isSoftDeckMesh p' child = isSoftDeckMesh p child"
    using mid by (simp add: isSoftDeckMesh_def softDeckMeshes_def)
  have t: "isStripMesh p' child = isStripMesh p child"
    using mid by (simp add: isStripMesh_def stripMeshes_def)
  have c: "mat_color (colorCallback p oc child s j) =
        (if truthy (softDeckColor p) \<and> isStripMesh p child
           then snd (softDeckPair (the (softDeckColor p)))
         else if truthy (softDeckColor p) \<and> isSoftDeckMesh p child
           then fst (softDeckPair (the (softDeckColor p)))
         else if isMaterialTypeMesh p child
           then (if materialType p = FullCarbon then ''#0A0C10'' else ''#C7C7C7'')
         else mat_color (applyHullColor p oc (s j)))"
    using True by (intro mat_color_colorCallback_bound) simp_all
  have c': "mat_color (colorCallback p' oc child s' j) =
        (if truthy (softDeckColor p) \<and> isStripMesh p child
           then snd (softDeckPair (the (softDeckColor p)))
         else if truthy (softDeckColor p) \<and> isSoftDeckMesh p child
           then fst (softDeckPair (the (softDeckColor p)))
         else if isMaterialTypeMesh p child
           then (if materialType p' = FullCarbon then ''#0A0C10'' else ''#C7C7C7'')
         else mat_color (applyHullColor p' oc (s' j)))"
    using True sd mat_color_colorCallback_bound [of child j s' p' oc]
    by (simp add: sdc m d t)
  consider (accent) "truthy (softDeckColor p) \<and> (isStripMesh p child \<or> isSoftDeckMesh p child)"
    | (mtype) "\<not> (truthy (softDeckColor p) \<and> (isStripMesh p child \<or> isSoftDeckMesh p child))"
        "isMaterialTypeMesh p child"
    | (hull) "\<not> (truthy (softDeckColor p) \<and> (isStripMesh p child \<or> isSoftDeckMesh p child))"
        "\<not> isMaterialTypeMesh p child" "isHullMaterial (s j)"
    | (none) "\<not> (truthy (softDeckColor p) \<and> (isStripMesh p child \<or> isSoftDeckMesh p child))"
        "\<not> isMaterialTypeMesh p child" "\<not> isHullMaterial (s j)"
    by blast
  then show ?thesis
  proof cases
    case accent
    then show ?thesis unfolding c c' by auto
  next
    case mtype
    then show ?thesis unfolding c c' using mt True by auto
  next
    case hull
    then show ?thesis unfolding c c' using hull(3) h assms(5)
      by (auto simp add: mat_color_applyHullColor)
  next
    case none
    then show ?thesis unfolding c c' using h
      by (auto simp add: mat_color_applyHullColor)
  qed
qed

lemma fold_colorCallback_fields:
  "mat_name (fold (colorCallback p oc) nodes s j) = mat_name (s j)"
  "standard (fold (colorCallback p oc) nodes s j) = standard (s j)"
  by (induction nodes arbitrary: s)
     (simp_all add: mat_name_colorCallback standard_colorCallback)

lemma fold_colorCallback_dichotomy:
  assumes mid: "modelId p' = modelId p" and sdc: "softDeckColor p' = softDeckColor p"
    and nm: "mat_name (s' j) = mat_name (s j)" and sd: "standard (s' j) = standard (s j)"
    and hull: "isHullMaterial (s j) \<Longrightarrow>
           color p' = color p \<and> useCustomColor p' = useCustomColor p \<and>
           hullColorMode p' = hullColorMode p"
    and mt: "\<And>child. child \<in> set nodes \<Longrightarrow> isMesh child \<Longrightarrow> j \<in> set (material child) \<Longrightarrow>
           isMaterialTypeMesh p child \<Longrightarrow> materialType p' = materialType p"
  shows "(mat_color (fold (colorCallback p oc) nodes s j) = mat_color (s j) \<and>
          mat_color (fold (colorCallback p' oc) nodes s' j) = mat_color (s' j)) \<or>
         mat_color (fold (colorCallback p oc) nodes s j) =
         mat_color (fold (colorCallback p' oc) nodes s' j)"
  using nm sd hull mt
proof (induction nodes arbitrary: s s')
  case Nil
  then show ?case by simp
next
  case (Cons n nodes)
  let ?s1 = "colorCallback p oc n s" and ?s1' = "colorCallback p' oc n s'"
  have mt_n: "isMesh n \<Longrightarrow> j \<in> set (material n) \<Longrightarrow> isMaterialTypeMesh p n \<Longrightarrow>
      materialType p' = materialType p"
    using Cons.prems(4) [of n] by simp
  have step: "(mat_color (?s1 j) = mat_color (s j) \<and> mat_color (?s1' j) = mat_color (s' j)) \<or>
         mat_color (?s1 j) = mat_color (?s1' j)"
    by (rule colorCallback_dichotomy [where p = p and p' = p' and s = s and s' = s' and j = j
          and child = n, OF mid sdc Cons.prems(1) Cons.prems(2) Cons.prems(3) mt_n])
  have nm1: "mat_name (?s1' j) = mat_name (?s1 j)"
    using Cons.prems(1) by (simp add: mat_name_colorCallback)
  have sd1: "standard (?s1' j) = standard (?s1 j)"
    using Cons.prems(2) by (simp add: standard_colorCallback)
  have hull1: "isHullMaterial (?s1 j) \<Longrightarrow>
      color p' = color p \<and> useCustomColor p' = useCustomColor p \<and>
      hullColorMode p' = hullColorMode p"
    using Cons.prems(3) by (simp add: isHullMaterial_colorCallback)
  have mt1: "\<And>child. child \<in> set nodes \<Longrightarrow> isMesh child \<Longrightarrow> j \<in> set (material child) \<Longrightarrow>
      isMaterialTypeMesh p child \<Longrightarrow> materialType p' = materialType p"
    using Cons.prems(4) by (meson list.set_intros(2))
  have rest: "(mat_color (fold (colorCallback p oc) nodes ?s1 j) = mat_color (?s1 j) \<and>
          mat_color (fold (colorCallback p' oc) nodes ?s1' j) = mat_color (?s1' j)) \<or>
         mat_color (fold (colorCallback p oc) nodes ?s1 j) =
         mat_color (fold (colorCallback p' oc) nodes ?s1' j)"
    by (rule Cons.IH [where s = "?s1" and s' = "?s1'", OF nm1 sd1 hull1 mt1])
  from step rest show ?case by auto
qed

lemma applyHullColor_nonhull: "\<not> isHullMaterial m \<Longrightarrow> applyHullColor p oc m = m"
  by (simp add: applyHullColor_def)

lemma colorCallback_unchanged:
  assumes "\<not> truthy (softDeckColor p)" "\<not> isHullMaterial (s j)"
    and "isMesh child \<Longrightarrow> j \<in> set (material child) \<Longrightarrow> \<not> isMaterialTypeMesh p child"
  shows "colorCallback p oc child s j = s j"
  using assms by (auto simp add: colorCallback_apply Let_def applyHullColor_nonhull)

lemma fold_colorCallback_unchanged:
  assumes "\<not> truthy (softDeckColor p)" "\<not> isHullMaterial (s j)"
    and "\<And>child. child \<in> set nodes \<Longrightarrow> isMesh child \<Longrightarrow> j \<in> set (material child) \<Longrightarrow>
           \<not> isMaterialTypeMesh p child"
  shows "fold (colorCallback p oc) nodes s j = s j"
  using assms(2,3)
proof (induction nodes arbitrary: s)
  case Nil
  then show ?case by simp
next
  case (Cons n nodes)
  have one: "colorCallback p oc n s j = s j"
    using Cons.prems(2) [of n] by (intro colorCallback_unchanged assms(1) Cons.prems(1)) simp_all
  have "fold (colorCallback p oc) nodes (colorCallback p oc n s) j = colorCallback p oc n s j"
  proof (rule Cons.IH)
    show "\<not> isHullMaterial (colorCallback p oc n s j)"
      using Cons.prems(1) by (simp add: one)
    show "\<And>child. child \<in> set nodes \<Longrightarrow> isMesh child \<Longrightarrow> j \<in> set (material child) \<Longrightarrow>
           \<not> isMaterialTypeMesh p child"
      using Cons.prems(2) by (meson list.set_intros(2))
  qed
  then show ?case by (simp add: one)
qed

lemma mat_color_colorCallback_plain:
  assumes "standard (s j)" "\<not> isHullMaterial (s j)"
    and "isMesh child \<Longrightarrow> j \<in> set (material child) \<Longrightarrow>
           \<not> (truthy (softDeckColor p) \<and> (isSoftDeckMesh p child \<or> isStripMesh p child))"
  shows "mat_color (colorCallback p oc child s j) =
     (if isMesh child \<and> j \<in> set (material child) \<and> isMaterialTypeMesh p child
      then (if materialType p = FullCarbon then ''#0A0C10'' else ''#C7C7C7'')
      else mat_color (s j))"
proof (cases "isMesh child \<and> j \<in> set (material child)")
  case False
  then show ?thesis using colorCallback_unbound [of child j p oc s] by auto
next
  case True
  then have "\<not> (truthy (softDeckColor p) \<and> (isSoftDeckMesh p child \<or> isStripMesh p child))"
    using assms(3) by blast
  then show ?thesis
    using True assms(1,2) mat_color_colorCallback_bound [of child j s p oc]
    by (auto simp add: applyHullColor_nonhull)
qed

lemma fold_colorCallback_materialType:
  assumes "standard (s j)" "\<not> isHullMaterial (s j)"
    and "\<And>child. child \<in> set nodes \<Longrightarrow> isMesh child \<Longrightarrow> j \<in> set (material child) \<Longrightarrow>
           \<not> (truthy (softDeckColor p) \<and> (isSoftDeckMesh p child \<or> isStripMesh p child))"
  shows "mat_color (fold (colorCallback p oc) nodes s j) =
     (if \<exists>mesh \<in> set nodes. isMesh mesh \<and> j \<in> set (material mesh) \<and> isMaterialTypeMesh p mesh
      then (if materialType p = FullCarbon then ''#0A0C10'' else ''#C7C7C7'')
      else mat_color (s j))"
  using assms
proof (induction nodes arbitrary: s)
  case Nil
  then show ?case by simp
next
  case (Cons n nodes)
  let ?s1 = "colorCallback p oc n s"
  have one: "mat_color (?s1 j) =
     (if isMesh n \<and> j \<in> set (material n) \<and> isMaterialTypeMesh p n
      then (if materialType p = FullCarbon then ''#0A0C10'' else ''#C7C7C7'')
      else mat_color (s j))"
    using Cons.prems(3) [of n]
    by (intro mat_color_colorCallback_plain Cons.prems(1) Cons.prems(2)) simp_all
  have rest: "mat_color (fold (colorCallback p oc) nodes ?s1 j) =
     (if \<exists>mesh \<in> set nodes. isMesh mesh \<and> j \<in> set (material mesh) \<and> isMaterialTypeMesh p mesh
      then (if materialType p = FullCarbon then ''#0A0C10'' else ''#C7C7C7'')
      else mat_color (?s1 j))"
  proof (rule Cons.IH)
    show "standard (?s1 j)" using Cons.prems(1) by (simp add: standard_colorCallback)
    show "\<not> isHullMaterial (?s1 j)" using Cons.prems(2) by (simp add: isHullMaterial_colorCallback)
    show "\<And>child. child \<in> set nodes \<Longrightarrow> isMesh child \<Longrightarrow> j \<in> set (material child) \<Longrightarrow>
           \<not> (truthy (softDeckColor p) \<and> (isSoftDeckMesh p child \<or> isStripMesh p child))"
      using Cons.prems(3) by (meson list.set_intros(2))
  qed
  show ?case unfolding fold_simps rest one by auto
qed

lemma isMaterialTypeMesh_modelId:
  "modelId p' = modelId p \<Longrightarrow> isMaterialTypeMesh p' child = isMaterialTypeMesh p child"
  by (simp add: isMaterialTypeMesh_def softDeckMeshes_def stripMeshes_def)

lemma mat_color_colorCallback_hull:
  assumes "isHullMaterial (s j)"
    and "isMesh child \<Longrightarrow> j \<in> set (material child) \<Longrightarrow>
           \<not> isMaterialTypeMesh p child \<and>
           \<not> (truthy (softDeckColor p) \<and> (isSoftDeckMesh p child \<or> isStripMesh p child))"
  shows "mat_color (colorCallback p oc child s j) =
     (if isMesh child \<and> j \<in> set (material child)
      then mat_color (applyHullColor p oc (s j))
      else mat_color (s j))"
proof (cases "isMesh child \<and> j \<in> set (material child)")
  case False
  then show ?thesis using colorCallback_unbound [of child j p oc s] by auto
next
  case True
  have "standard (s j)" using assms(1) by (simp add: isHullMaterial_def)
  then show ?thesis
    using True assms(2) mat_color_colorCallback_bound [of child j s p oc] by auto
qed

lemma fold_colorCallback_hull:
  assumes "isHullMaterial (s j)"
    and "\<And>child. child \<in> set nodes \<Longrightarrow> isMesh child \<Longrightarrow> j \<in> set (material child) \<Longrightarrow>
           \<not> isMaterialTypeMesh p child \<and>
           \<not> (truthy (softDeckColor p) \<and> (isSoftDeckMesh p child \<or> isStripMesh p child))"
  shows "mat_color (fold (colorCallback p oc) nodes s j) =
     (if \<exists>mesh \<in> set nodes. isMesh mesh \<and> j \<in> set (material mesh)
      then (if useCustomColor p then color p
            else if hullColorMode p = White
              then (case white oc of Some c \<Rightarrow> c | None \<Rightarrow> ''#ECECE8'')
              else (case grey oc of Some c \<Rightarrow> c | None \<Rightarrow> ''#9EA0A1''))
      else mat_color (s j))"
  using assms
proof (induction nodes arbitrary: s)
  case Nil
  then show ?case by simp
next
  case (Cons n nodes)
  let ?s1 = "colorCallback p oc n s"
  let ?target = "if useCustomColor p then color p
            else if hullColorMode p = White
              then (case white oc of Some c \<Rightarrow> c | None \<Rightarrow> ''#ECECE8'')
              else (case grey oc of Some c \<Rightarrow> c | None \<Rightarrow> ''#9EA0A1'')"
  have one: "mat_color (?s1 j) =
     (if isMesh n \<and> j \<in> set (material n) then ?target else mat_color (s j))"
    using Cons.prems(2) [of n] Cons.prems(1)
      mat_color_colorCallback_hull [of s j n p oc]
    by (simp add: mat_color_applyHullColor)
  have rest: "mat_color (fold (colorCallback p oc) nodes ?s1 j) =
     (if \<exists>mesh \<in> set nodes. isMesh mesh \<and> j \<in> set (material mesh)
      then ?target else mat_color (?s1 j))"
  proof (rule Cons.IH)
    show "isHullMaterial (?s1 j)"
      using Cons.prems(1) by (simp add: isHullMaterial_colorCallback)
    show "\<And>child. child \<in> set nodes \<Longrightarrow> isMesh child \<Longrightarrow> j \<in> set (material child) \<Longrightarrow>
           \<not> isMaterialTypeMesh p child \<and>
           \<not> (truthy (softDeckColor p) \<and> (isSoftDeckMesh p child \<or> isStripMesh p child))"
      using Cons.prems(2) by (meson list.set_intros(2))
  qed
  show ?case unfolding fold_simps rest one by auto
qed

text \<open>The pass writes only into materials bound to a mesh of the scene it is given.\<close>

lemma applyColors_unbound:
  assumes "filter (\<lambda>child. isMesh child \<and> j \<in> set (material child)) (traverse scene) = []"
  shows "applyColors p oc scene st j = st j"
proof -
  have "fold (colorCallback p oc) nodes s j = s j"
    if "\<And>child. child \<in> set nodes \<Longrightarrow> \<not> (isMesh child \<and> j \<in> set (material child))"
    for nodes s
    using that
  proof (induction nodes arbitrary: s)
    case Nil
    then show ?case by simp
  next
    case (Cons n nodes)
    have "colorCallback p oc n s j = s j"
      using Cons.prems [of n] by (simp add: colorCallback_unbound)
    moreover have "fold (colorCallback p oc) nodes (colorCallback p oc n s) j =
        colorCallback p oc n s j"
      using Cons.prems by (intro Cons.IH) simp
    ultimately show ?case by simp
  qed
  moreover have "\<And>child. child \<in> set (traverse scene) \<Longrightarrow>
      \<not> (isMesh child \<and> j \<in> set (material child))"
    using assms filter_empty_iff
      [of "\<lambda>child. isMesh child \<and> j \<in> set (material child)" "traverse scene"]
    by blast
  ultimately show ?thesis by (simp add: applyColors_def)
qed

lemma fold_captureMaterial_white:
  "white (fold (\<lambda>i. captureMaterial (st i)) mats oc) =
     (case white oc of
        Some c \<Rightarrow> Some c
      | None \<Rightarrow>
          (case filter (\<lambda>i. standard (st i) \<and> toLowerCase (mat_name (st i)) = ''hull_white'') mats of
             [] \<Rightarrow> None
           | i # _ \<Rightarrow> Some (mat_color (st i))))"
  by (induction mats arbitrary: oc)
     (auto simp add: captureMaterial_def Let_def split: option.splits)

lemma fold_captureMaterial_grey:
  "grey (fold (\<lambda>i. captureMaterial (st i)) mats oc) =
     (case grey oc of
        Some c \<Rightarrow> Some c
      | None \<Rightarrow>
          (case filter (\<lambda>i. standard (st i) \<and> toLowerCase (mat_name (st i)) = ''hull_grey'') mats of
             [] \<Rightarrow> None
           | i # _ \<Rightarrow> Some (mat_color (st i))))"
  by (induction mats arbitrary: oc)
     (auto simp add: captureMaterial_def Let_def split: option.splits)

lemma fold_capture_nodes:
  "fold (\<lambda>child oc. if \<not> isMesh child then oc
                     else fold (\<lambda>i. captureMaterial (st i)) (material child) oc) nodes oc0 =
   fold (\<lambda>i. captureMaterial (st i)) (concat (map material (filter isMesh nodes))) oc0"
  by (induction nodes arbitrary: oc0) simp_all

lemma captureOriginalColors_first:
  "white (captureOriginalColors scene st) =
     (case filter (\<lambda>i. standard (st i) \<and> toLowerCase (mat_name (st i)) = ''hull_white'')
             (concat (map material (filter isMesh (traverse scene)))) of
        [] \<Rightarrow> None
      | i # _ \<Rightarrow> Some (mat_color (st i)))"
  "grey (captureOriginalColors scene st) =
     (case filter (\<lambda>i. standard (st i) \<and> toLowerCase (mat_name (st i)) = ''hull_grey'')
             (concat (map material (filter isMesh (traverse scene)))) of
        [] \<Rightarrow> None
      | i # _ \<Rightarrow> Some (mat_color (st i)))"
  by (simp_all add: captureOriginalColors_def fold_capture_nodes fold_captureMaterial_white
      fold_captureMaterial_grey)

section \<open>Facts about the orbit controls wrapper\<close>

lemma onDown_right:
  "controlsRef w = Some c \<Longrightarrow>
   onDown 2 w = w\<lparr>rmbActiveRef := True,
     controlsRef := Some (c\<lparr>enableRotate := False, enableZoom := False, enablePan := True\<rparr>),
     initialCameraYRef := (case initialCameraYRef w of None \<Rightarrow> Some (camera_position_y w)
                           | Some y \<Rightarrow> Some y)\<rparr>"
  by (cases "initialCameraYRef w") (simp_all add: onDown_def Let_def)

lemma first_press_freezes_height:
  assumes "controlsRef w = Some c" "initialCameraYRef w = None"
  shows "\<bar>camera_position_y (controlsFrame ((onDown 2 w)\<lparr>camera_position_y := y\<rparr>)) -
          camera_position_y w\<bar> \<le> 0.000001"
  using assms by (simp add: onDown_def controlsFrame_def Let_def)

lemma right_button_flags:
  assumes "controlsRef w = Some c"
  shows "controlsRef (onDown 2 w) =
           Some (c\<lparr>enableRotate := False, enableZoom := False, enablePan := True\<rparr>)"
    and "rmbActiveRef (onDown 2 w)"
    and "controlsRef (onUp 2 w) = Some (c\<lparr>enableRotate := True, enableZoom := True\<rparr>)"
    and "\<not> rmbActiveRef (onUp 2 w)"
    and "button \<noteq> 2 \<Longrightarrow> onUp button w = w"
    and "button \<noteq> 2 \<Longrightarrow> onDown button w = w"
    and "controlsRef (controlsFrame w) = controlsRef w"
  using assms
  by (simp_all add: onDown_def onUp_def controlsFrame_def Let_def split: option.splits)

section \<open>The claims about visibility\<close>


text \<open>
  Claim C1, as stated, says that a named node for which no mapping entry matches is
  visible. The callback does nothing for such a node. In the scene below the group
  \<open>cabin\<close> is hidden by its entry, which hides its child \<open>seat\<close> as well; no entry
  matches \<open>seat\<close>, and after the pass \<open>seat\<close> is still hidden.
\<close>

theorem unmapped_child_of_hidden_group_stays_hidden:
  "find (\<lambda>m. groupName m = ''seat'' \<and> mappingModelId m = getBaseModelId ''2.9'')
     [\<lparr>groupName = ''cabin'', mappingModelId = ''2.9'', hiddenByDefault = True,
       linkedOptionId = None\<rparr>] = None \<and>
   applyGroupVisibility ''2.9''
     [\<lparr>groupName = ''cabin'', mappingModelId = ''2.9'', hiddenByDefault = True,
       linkedOptionId = None\<rparr>] []
     (Object3D [] False False [] True False
       [Object3D ''cabin'' False False [] True False
         [Object3D ''seat'' True False [0] True True []]])
   = Object3D [] False False [] True False
       [Object3D ''cabin'' False False [] False False
         [Object3D ''seat'' True False [0] False False []]]"
  by (simp add: applyGroupVisibility.simps visibilityCallback_def resolveVisibility_def
      getBaseModelId_def endsWithE_def truthy_def isDepthMask_def toUpperCase_def
      toUpperChar_def)

text \<open>
  Claim C1, amended. For a named node that is not one of the two auto-managed names the
  callback looks up the first entry for (node name, base model id). Without an entry it
  leaves the node as it is. With an entry it calls \<open>setGroupVisibility\<close> with: true
  when \<open>hiddenByDefault\<close> is false; membership of \<open>linkedOptionId\<close> in the selected
  options when \<open>hiddenByDefault\<close> is true and \<open>linkedOptionId\<close> is a non-empty string;
  false when \<open>hiddenByDefault\<close> is true and \<open>linkedOptionId\<close> is missing or empty.
  \<open>setGroupVisibility\<close> writes the value into the node and every descendant. After the
  whole pass every node for whose own name the callback resolves a value has that value,
  also when an ancestor's entry wrote another one before.
\<close>

theorem visibility_resolved_from_mapping:
  assumes "name child \<noteq> []" "name child \<noteq> ''el_motor''" "name child \<noteq> ''battary_V_4_new''"
  shows "visibilityCallback mid ms sel child =
       (case find (\<lambda>m. groupName m = name child \<and> mappingModelId m = getBaseModelId mid) ms of
          None \<Rightarrow> child
        | Some m \<Rightarrow>
            setGroupVisibility child
              (if hiddenByDefault m
               then (case linkedOptionId m of
                       None \<Rightarrow> False
                     | Some opt \<Rightarrow> opt \<noteq> [] \<and> opt \<in> set sel)
               else True)) \<and>
     (d \<in> set (traverse (setGroupVisibility child vis)) \<longrightarrow> visible d = vis) \<and>
     (e \<in> set (traverse (applyGroupVisibility mid ms sel scene)) \<and>
      resolveVisibility mid ms sel (name e) = Some b \<longrightarrow> visible e = b)"
proof (intro conjI impI)
  show "visibilityCallback mid ms sel child =
       (case find (\<lambda>m. groupName m = name child \<and> mappingModelId m = getBaseModelId mid) ms of
          None \<Rightarrow> child
        | Some m \<Rightarrow>
            setGroupVisibility child
              (if hiddenByDefault m
               then (case linkedOptionId m of
                       None \<Rightarrow> False
                     | Some opt \<Rightarrow> opt \<noteq> [] \<and> opt \<in> set sel)
               else True))"
    using assms
    by (simp add: visibilityCallback_def resolveVisibility_def truthy_def
        split: option.splits)
next
  assume "d \<in> set (traverse (setGroupVisibility child vis))"
  then show "visible d = vis" by (rule traverse_setGroupVisibility_visible)
next
  assume "e \<in> set (traverse (applyGroupVisibility mid ms sel scene)) \<and>
      resolveVisibility mid ms sel (name e) = Some b"
  then show "visible e = b" using applyGroupVisibility_resolved by blast
qed

theorem visibility_resolved_from_mapping_witness:
  "visibilityCallback ''2.9E''
     [\<lparr>groupName = ''cabin'', mappingModelId = ''2.9'', hiddenByDefault = True,
       linkedOptionId = Some ''bimini''\<rparr>] [''bimini'']
     (Object3D ''cabin'' False False [] False False [Object3D ''seat'' True False [0] False False []])
   = Object3D ''cabin'' False False [] True False [Object3D ''seat'' True False [0] True True []] \<and>
   visible (Object3D ''seat'' True False [0] True True []) = True \<and>
   visible (Object3D ''cabin'' False False [] True False
             [Object3D ''seat'' True False [0] True True []]) = True"
  using visibility_resolved_from_mapping
    [of "Object3D ''cabin'' False False [] False False [Object3D ''seat'' True False [0] False False []]"
      "''2.9E''"
      "[\<lparr>groupName = ''cabin'', mappingModelId = ''2.9'', hiddenByDefault = True,
         linkedOptionId = Some ''bimini''\<rparr>]"
      "[''bimini'']"
      "Object3D ''seat'' True False [0] True True []" True
      "Object3D ''cabin'' False False [] True False [Object3D ''seat'' True False [0] True True []]"
      "Object3D [] False False [] True False
        [Object3D ''cabin'' False False [] False False [Object3D ''seat'' True False [0] False False []]]"
      True]
  by (simp add: getBaseModelId_def endsWithE_def isDepthMask_def toUpperCase_def toUpperChar_def)

text \<open>
  Claim C2. For every supported model id, every mapping table and every selection, after
  the visibility pass each node named \<open>el_motor\<close> or \<open>battary_V_4_new\<close> is visible
  exactly when the model id ends with \<open>E\<close>, which for the supported ids means
  \<open>2.9E\<close> or \<open>3.3E\<close>; a mapping entry for these names has no effect.
\<close>

theorem auto_managed_nodes_follow_electric_variant:
  assumes "mid \<in> set DEFAULT_MODEL_IDS"
    and "d \<in> set (traverse (applyGroupVisibility mid ms sel scene))"
    and "name d = ''el_motor'' \<or> name d = ''battary_V_4_new''"
  shows "visible d = isElectricModel mid \<and>
         isElectricModel mid = (mid = ''2.9E'' \<or> mid = ''3.3E'')"
proof
  have "resolveVisibility mid ms sel (name d) = Some (isElectricModel mid)"
    using assms(3) by (auto simp add: resolveVisibility_def)
  then show "visible d = isElectricModel mid"
    using assms(2) applyGroupVisibility_resolved by blast
  show "isElectricModel mid = (mid = ''2.9E'' \<or> mid = ''3.3E'')"
    using assms(1) by (auto simp add: DEFAULT_MODEL_IDS_def isElectricModel_def endsWithE_def)
qed

theorem auto_managed_nodes_follow_electric_variant_witness:
  "''2.9'' \<in> set DEFAULT_MODEL_IDS \<and>
   Object3D ''el_motor'' True False [3] False False []
     \<in> set (traverse (applyGroupVisibility ''2.9''
         [\<lparr>groupName = ''el_motor'', mappingModelId = ''2.9'', hiddenByDefault = False,
           linkedOptionId = None\<rparr>] []
         (Object3D ''boat'' False False [] True False
            [Object3D ''el_motor'' True False [3] True True []]))) \<and>
   visible (Object3D ''el_motor'' True False [3] False False []) = isElectricModel ''2.9'' \<and>
   isElectricModel ''2.9'' = False"
  using auto_managed_nodes_follow_electric_variant
    [of "''2.9''" "Object3D ''el_motor'' True False [3] False False []"
      "[\<lparr>groupName = ''el_motor'', mappingModelId = ''2.9'', hiddenByDefault = False,
           linkedOptionId = None\<rparr>]" "[]"
      "Object3D ''boat'' False False [] True False
            [Object3D ''el_motor'' True False [3] True True []]"]
  by (simp add: DEFAULT_MODEL_IDS_def applyGroupVisibility.simps visibilityCallback_def
      resolveVisibility_def getBaseModelId_def endsWithE_def isElectricModel_def
      isDepthMask_def toUpperCase_def toUpperChar_def)

text \<open>
  Claim C3. For a node that is not auto-managed, any mapping table and any selection, the
  callback resolves the same visibility under \<open>2.9\<close> and \<open>2.9E\<close>, and under
  \<open>3.3\<close> and \<open>3.3E\<close>, and leaves the node in the same state. A scene in which
  no node has an auto-managed name is in the same state after the whole pass under the
  base id and under its electric variant.
\<close>

theorem electric_variant_shares_visibility:
  assumes "name child \<noteq> ''el_motor''" "name child \<noteq> ''battary_V_4_new''"
  shows "resolveVisibility ''2.9'' ms sel (name child) =
         resolveVisibility ''2.9E'' ms sel (name child) \<and>
         resolveVisibility ''3.3'' ms sel (name child) =
         resolveVisibility ''3.3E'' ms sel (name child) \<and>
         visibilityCallback ''2.9'' ms sel child = visibilityCallback ''2.9E'' ms sel child \<and>
         visibilityCallback ''3.3'' ms sel child = visibilityCallback ''3.3E'' ms sel child \<and>
         (filter (\<lambda>d. name d = ''el_motor'' \<or> name d = ''battary_V_4_new'') (traverse scene) = []
          \<longrightarrow> applyGroupVisibility ''2.9'' ms sel scene = applyGroupVisibility ''2.9E'' ms sel scene \<and>
              applyGroupVisibility ''3.3'' ms sel scene = applyGroupVisibility ''3.3E'' ms sel scene)"
proof -
  have r: "resolveVisibility ''2.9'' ms sel n = resolveVisibility ''2.9E'' ms sel n \<and>
           resolveVisibility ''3.3'' ms sel n = resolveVisibility ''3.3E'' ms sel n"
    if "n \<noteq> ''el_motor''" "n \<noteq> ''battary_V_4_new''" for n
    using that by (simp add: resolveVisibility_def getBaseModelId_def endsWithE_def)
  have whole: "applyGroupVisibility ''2.9'' ms sel scene = applyGroupVisibility ''2.9E'' ms sel scene \<and>
      applyGroupVisibility ''3.3'' ms sel scene = applyGroupVisibility ''3.3E'' ms sel scene"
    if e: "filter (\<lambda>d. name d = ''el_motor'' \<or> name d = ''battary_V_4_new'') (traverse scene) = []"
  proof -
    have "name d \<noteq> ''el_motor'' \<and> name d \<noteq> ''battary_V_4_new''"
      if "d \<in> set (traverse scene)" for d
      using that e filter_empty_iff
        [of "\<lambda>d. name d = ''el_motor'' \<or> name d = ''battary_V_4_new''" "traverse scene" d]
      by blast
    then show ?thesis using r by (intro conjI applyGroupVisibility_cong) blast+
  qed
  show ?thesis
    using r [OF assms] whole by (simp add: visibilityCallback_def)
qed

theorem electric_variant_shares_visibility_witness:
  "name (Object3D ''bimini_top'' True False [] True True []) \<noteq> ''el_motor'' \<and>
   name (Object3D ''bimini_top'' True False [] True True []) \<noteq> ''battary_V_4_new'' \<and>
   visibilityCallback ''3.3''
     [\<lparr>groupName = ''bimini_top'', mappingModelId = ''3.3'', hiddenByDefault = True,
       linkedOptionId = Some ''bimini''\<rparr>] []
     (Object3D ''bimini_top'' True False [] True True []) =
   visibilityCallback ''3.3E''
     [\<lparr>groupName = ''bimini_top'', mappingModelId = ''3.3'', hiddenByDefault = True,
       linkedOptionId = Some ''bimini''\<rparr>] []
     (Object3D ''bimini_top'' True False [] True True []) \<and>
   visibilityCallback ''3.3E''
     [\<lparr>groupName = ''bimini_top'', mappingModelId = ''3.3'', hiddenByDefault = True,
       linkedOptionId = Some ''bimini''\<rparr>] []
     (Object3D ''bimini_top'' True False [] True True []) =
   Object3D ''bimini_top'' True False [] False False [] \<and>
   filter (\<lambda>d. name d = ''el_motor'' \<or> name d = ''battary_V_4_new'') (traverse sampleBoat) = [] \<and>
   applyGroupVisibility ''3.3''
     [\<lparr>groupName = ''bimini_top'', mappingModelId = ''3.3'', hiddenByDefault = True,
       linkedOptionId = Some ''bimini''\<rparr>] [] sampleBoat =
   applyGroupVisibility ''3.3E''
     [\<lparr>groupName = ''bimini_top'', mappingModelId = ''3.3'', hiddenByDefault = True,
       linkedOptionId = Some ''bimini''\<rparr>] [] sampleBoat"
  using electric_variant_shares_visibility
    [where child = "Object3D ''bimini_top'' True False [] True True []"
      and ms = "[\<lparr>groupName = ''bimini_top'', mappingModelId = ''3.3'', hiddenByDefault = True,
          linkedOptionId = Some ''bimini''\<rparr>]"
      and sel = "[]" and scene = sampleBoat]
  by (simp add: visibilityCallback_def resolveVisibility_def getBaseModelId_def endsWithE_def
      truthy_def isDepthMask_def toUpperCase_def toUpperChar_def)

section \<open>The claims about colours\<close>

text \<open>
  Claim C4. For an override colour of the form the viewer is given (a \<open>#\<close> and six
  hexadecimal digits), the hull loop of the colour callback sets every standard material
  of the mesh whose lower-cased name is \<open>hull_white\<close> or \<open>hull_grey\<close> to the
  override colour when the custom override is active; otherwise to the white snapshot
  when the mode is white and to the grey snapshot when it is grey, with \<open>#ECECE8\<close>
  and \<open>#9EA0A1\<close> in place of a snapshot that was not captured. For a supported model
  id, when no mesh that holds the material is in one of the three mesh lists, that is
  also its colour after the callback and after the whole colour pass. A snapshot is
  captured once: it is the colour of the first standard material of that name in
  traversal order, if there is one.
\<close>

theorem hull_color_rule:
  assumes "i \<in> set (material child)" "standard (st i)"
    and "toLowerCase (mat_name (st i)) = ''hull_white'' \<or>
         toLowerCase (mat_name (st i)) = ''hull_grey''"
    and "isHexColor (color p)"
  shows "mat_color (forEachMaterial (applyHullColor p oc) (material child) st i) =
       (if useCustomColor p then color p
        else if hullColorMode p = White
          then (case white oc of Some c \<Rightarrow> c | None \<Rightarrow> ''#ECECE8'')
          else (case grey oc of Some c \<Rightarrow> c | None \<Rightarrow> ''#9EA0A1'')) \<and>
     (modelId p \<in> set DEFAULT_MODEL_IDS \<and> isMesh child \<and> child \<in> set (traverse scene) \<and>
      filter (\<lambda>m. isMesh m \<and> i \<in> set (material m) \<and>
                  (isMaterialTypeMesh p m \<or> isSoftDeckMesh p m \<or> isStripMesh p m))
        (traverse scene) = [] \<longrightarrow>
      mat_color (colorCallback p oc child st i) =
        mat_color (forEachMaterial (applyHullColor p oc) (material child) st i) \<and>
      mat_color (applyColors p oc scene st i) =
        mat_color (forEachMaterial (applyHullColor p oc) (material child) st i)) \<and>
     white (captureOriginalColors scene st) =
       (case filter (\<lambda>i. standard (st i) \<and> toLowerCase (mat_name (st i)) = ''hull_white'')
               (concat (map material (filter isMesh (traverse scene)))) of
          [] \<Rightarrow> None
        | i # _ \<Rightarrow> Some (mat_color (st i))) \<and>
     grey (captureOriginalColors scene st) =
       (case filter (\<lambda>i. standard (st i) \<and> toLowerCase (mat_name (st i)) = ''hull_grey'')
               (concat (map material (filter isMesh (traverse scene)))) of
          [] \<Rightarrow> None
        | i # _ \<Rightarrow> Some (mat_color (st i)))"
proof -
  let ?target = "if useCustomColor p then color p
        else if hullColorMode p = White
          then (case white oc of Some c \<Rightarrow> c | None \<Rightarrow> ''#ECECE8'')
          else (case grey oc of Some c \<Rightarrow> c | None \<Rightarrow> ''#9EA0A1'')"
  have h: "isHullMaterial (st i)" using assms(2,3) by (simp add: isHullMaterial_def)
  have loop: "mat_color (forEachMaterial (applyHullColor p oc) (material child) st i) = ?target"
    using assms(1) h
    by (simp add: forEachMaterial_apply applyHullColor_idem mat_color_applyHullColor)
  have pass: "mat_color (colorCallback p oc child st i) = ?target \<and>
      mat_color (applyColors p oc scene st i) = ?target"
    if a: "isMesh child \<and> child \<in> set (traverse scene) \<and>
      filter (\<lambda>m. isMesh m \<and> i \<in> set (material m) \<and>
                  (isMaterialTypeMesh p m \<or> isSoftDeckMesh p m \<or> isStripMesh p m))
        (traverse scene) = []"
  proof -
    have none: "\<not> isMaterialTypeMesh p m \<and>
        \<not> (truthy (softDeckColor p) \<and> (isSoftDeckMesh p m \<or> isStripMesh p m))"
      if "m \<in> set (traverse scene)" "isMesh m" "i \<in> set (material m)" for m
      using that a filter_empty_iff
        [of "\<lambda>m. isMesh m \<and> i \<in> set (material m) \<and>
               (isMaterialTypeMesh p m \<or> isSoftDeckMesh p m \<or> isStripMesh p m)"
          "traverse scene" m]
      by blast
    have "mat_color (colorCallback p oc child st i) = mat_color (applyHullColor p oc (st i))"
      using a assms(1) h none [of child] mat_color_colorCallback_hull [of st i child p oc]
      by simp
    moreover have "mat_color (fold (colorCallback p oc) (traverse scene) st i) =
       (if \<exists>mesh \<in> set (traverse scene). isMesh mesh \<and> i \<in> set (material mesh)
        then ?target else mat_color (st i))"
      using h none by (intro fold_colorCallback_hull) blast+
    moreover have "\<exists>mesh \<in> set (traverse scene). isMesh mesh \<and> i \<in> set (material mesh)"
      using a assms(1) by blast
    ultimately show ?thesis
      using h by (simp add: applyColors_def mat_color_applyHullColor)
  qed
  show ?thesis
    using loop pass by (simp add: captureOriginalColors_first)
qed

theorem hull_color_rule_witness:
  "(0::nat) \<in> set (material (sampleMesh ''hull'' [0])) \<and>
   standard (sampleMaterials 0) \<and>
   toLowerCase (mat_name (sampleMaterials 0)) = ''hull_white'' \<and>
   useCustomColor (props29 Fiberglass True Grey None) \<and>
   color (props29 Fiberglass True Grey None) = ''#FF6B00'' \<and>
   isHexColor (color (props29 Fiberglass True Grey None)) \<and>
   mat_color (forEachMaterial
       (applyHullColor (props29 Fiberglass True Grey None)
          \<lparr>white = Some ''#F0F0F0'', grey = None\<rparr>)
       (material (sampleMesh ''hull'' [0])) sampleMaterials 0) = ''#FF6B00'' \<and>
   modelId (props29 Fiberglass True Grey None) \<in> set DEFAULT_MODEL_IDS \<and>
   isMesh (sampleMesh ''hull'' [0]) \<and> sampleMesh ''hull'' [0] \<in> set (traverse sampleBoat) \<and>
   filter (\<lambda>m. isMesh m \<and> 0 \<in> set (material m) \<and>
        (isMaterialTypeMesh (props29 Fiberglass True Grey None) m \<or>
         isSoftDeckMesh (props29 Fiberglass True Grey None) m \<or>
         isStripMesh (props29 Fiberglass True Grey None) m))
     (traverse sampleBoat) = [] \<and>
   mat_color (colorCallback (props29 Fiberglass True Grey None)
       \<lparr>white = Some ''#F0F0F0'', grey = None\<rparr> (sampleMesh ''hull'' [0])
       sampleMaterials 0) = ''#FF6B00'' \<and>
   mat_color (applyColors (props29 Fiberglass True Grey None)
       \<lparr>white = Some ''#F0F0F0'', grey = None\<rparr> sampleBoat sampleMaterials 0) = ''#FF6B00'' \<and>
   white (captureOriginalColors sampleBoat sampleMaterials) = Some ''#F0F0F0'' \<and>
   grey (captureOriginalColors sampleBoat sampleMaterials) = None"
proof -
  have hyps:
    "isHexColor (color (props29 Fiberglass True Grey None))"
    "modelId (props29 Fiberglass True Grey None) \<in> set DEFAULT_MODEL_IDS"
    "filter (\<lambda>m. isMesh m \<and> 0 \<in> set (material m) \<and>
        (isMaterialTypeMesh (props29 Fiberglass True Grey None) m \<or>
         isSoftDeckMesh (props29 Fiberglass True Grey None) m \<or>
         isStripMesh (props29 Fiberglass True Grey None) m))
     (traverse sampleBoat) = []"
    by (simp_all add: isHexColor_def isHexDigit_def DEFAULT_MODEL_IDS_def
        isMaterialTypeMesh_def isSoftDeckMesh_def isStripMesh_def
        softDeckMeshes_def stripMeshes_def meshesFor_def MATERIAL_MESHES_BY_MODEL_def
        SOFT_DECK_MESHES_BY_MODEL_def STRIP_MESHES_BY_MODEL_def toLowerCase_def
        toLowerChar_def)
  show ?thesis
    using hyps hull_color_rule
      [where i = 0 and child = "sampleMesh ''hull'' [0]" and st = sampleMaterials
        and p = "props29 Fiberglass True Grey None"
        and oc = "\<lparr>white = Some ''#F0F0F0'', grey = None\<rparr>"
        and scene = sampleBoat]
    by (simp add: toLowerCase_def toLowerChar_def)
qed

text \<open>
  Claim C7, as stated, says that any provided key outside the three enumerated ones
  selects the first pair. The rule is guarded by the truthiness of the key, and the
  empty string is a provided key that is falsy: the soft deck mesh below keeps the
  colour it had.
\<close>

theorem empty_soft_deck_key_selects_no_pair:
  "softDeckColor (props29 Fiberglass False White (Some [])) = Some [] \<and>
   isSoftDeckMesh (props29 Fiberglass False White (Some [])) (sampleMesh ''Mesh304'' [0]) \<and>
   mat_color (colorCallback (props29 Fiberglass False White (Some []))
       \<lparr>white = None, grey = None\<rparr> (sampleMesh ''Mesh304'' [0])
       (\<lambda>i. stdMaterial ''deck_mat'' ''#111111'') 0) = ''#111111''"
  by (simp add: colorCallback_apply Let_def truthy_def applyHullColor_def isHullMaterial_def
      isMaterialTypeMesh_def isSoftDeckMesh_def softDeckMeshes_def stripMeshes_def
      meshesFor_def MATERIAL_MESHES_BY_MODEL_def SOFT_DECK_MESHES_BY_MODEL_def
      STRIP_MESHES_BY_MODEL_def toLowerCase_def toLowerChar_def)

text \<open>
  Claim C7, amended. For a non-empty key: the upper-cased key \<open>#9D622BFF\<close> selects
  (\<open>#9D622B\<close>, \<open>#FFFDFC\<close>), \<open>#BCBCBCFF\<close> selects (\<open>#939393\<close>, \<open>#FFFDFC\<close>),
  \<open>#95070BFF\<close> selects (\<open>#939393\<close>, \<open>#95070B\<close>), and any other key selects the
  first pair. After the callback every standard material of a mesh whose lower-cased name
  is in the lower-cased soft deck list of the model has the deck colour of the pair, and
  every standard material of a mesh in the strip list has the strip colour. For the empty
  key, as without a key, the rule returns the materials as it got them.
\<close>

theorem soft_deck_pair_selection:
  assumes "softDeckColor p = Some key" "key \<noteq> []"
  shows "softDeckPair key =
       (if toUpperCase key = ''#9D622BFF'' then (''#9D622B'', ''#FFFDFC'')
        else if toUpperCase key = ''#BCBCBCFF'' then (''#939393'', ''#FFFDFC'')
        else if toUpperCase key = ''#95070BFF'' then (''#939393'', ''#95070B'')
        else (''#9D622B'', ''#FFFDFC'')) \<and>
     (isMesh deck \<and> i \<in> set (material deck) \<and> standard (st i) \<and>
      toLowerCase (name deck) \<in>
        set (map toLowerCase (meshesFor SOFT_DECK_MESHES_BY_MODEL (modelId p))) \<longrightarrow>
      mat_color (colorCallback p oc deck st i) = fst (softDeckPair key)) \<and>
     (isMesh strip \<and> k \<in> set (material strip) \<and> standard (st k) \<and>
      toLowerCase (name strip) \<in>
        set (map toLowerCase (meshesFor STRIP_MESHES_BY_MODEL (modelId p))) \<longrightarrow>
      mat_color (colorCallback p oc strip st k) = snd (softDeckPair key)) \<and>
     softDeckRule (p\<lparr>softDeckColor := Some []\<rparr>) deck st = st"
proof (intro conjI impI)
  show "softDeckRule (p\<lparr>softDeckColor := Some []\<rparr>) deck st = st"
    by (simp add: softDeckRule_def truthy_def)
next
  show "softDeckPair key =
       (if toUpperCase key = ''#9D622BFF'' then (''#9D622B'', ''#FFFDFC'')
        else if toUpperCase key = ''#BCBCBCFF'' then (''#939393'', ''#FFFDFC'')
        else if toUpperCase key = ''#95070BFF'' then (''#939393'', ''#95070B'')
        else (''#9D622B'', ''#FFFDFC''))"
    by (simp add: softDeckPair_def Let_def)
next
  have t: "truthy (softDeckColor p)" using assms by (simp add: truthy_def)
  assume a: "isMesh deck \<and> i \<in> set (material deck) \<and> standard (st i) \<and>
      toLowerCase (name deck) \<in>
        set (map toLowerCase (meshesFor SOFT_DECK_MESHES_BY_MODEL (modelId p)))"
  then have d: "isSoftDeckMesh p deck" by (simp add: isSoftDeckMesh_def softDeckMeshes_def)
  then have "\<not> isStripMesh p deck"
    using deck_strip_disjoint [of p] by (auto simp add: isSoftDeckMesh_def isStripMesh_def)
  then show "mat_color (colorCallback p oc deck st i) = fst (softDeckPair key)"
    using a t d assms(1) mat_color_colorCallback_bound [of deck i st p oc] by simp
next
  have t: "truthy (softDeckColor p)" using assms by (simp add: truthy_def)
  assume a: "isMesh strip \<and> k \<in> set (material strip) \<and> standard (st k) \<and>
      toLowerCase (name strip) \<in>
        set (map toLowerCase (meshesFor STRIP_MESHES_BY_MODEL (modelId p)))"
  then have "isStripMesh p strip" by (simp add: isStripMesh_def stripMeshes_def)
  then show "mat_color (colorCallback p oc strip st k) = snd (softDeckPair key)"
    using a t assms(1) mat_color_colorCallback_bound [of strip k st p oc] by simp
qed

theorem soft_deck_pair_selection_witness:
  "softDeckColor (props29 Fiberglass False White (Some ''#bcbcbcff'')) = Some ''#bcbcbcff'' \<and>
   ''#bcbcbcff'' \<noteq> [] \<and>
   softDeckPair ''#bcbcbcff'' = (''#939393'', ''#FFFDFC'') \<and>
   isMesh (sampleMesh ''Mesh304'' [0]) \<and> (0::nat) \<in> set (material (sampleMesh ''Mesh304'' [0])) \<and>
   standard (stdMaterial ''deck_mat'' ''#111111'') \<and>
   toLowerCase (name (sampleMesh ''Mesh304'' [0])) \<in>
     set (map toLowerCase (meshesFor SOFT_DECK_MESHES_BY_MODEL
       (modelId (props29 Fiberglass False White (Some ''#bcbcbcff''))))) \<and>
   mat_color (colorCallback (props29 Fiberglass False White (Some ''#bcbcbcff''))
       \<lparr>white = None, grey = None\<rparr> (sampleMesh ''Mesh304'' [0])
       (\<lambda>i. stdMaterial ''deck_mat'' ''#111111'') 0) = ''#939393'' \<and>
   isMesh (sampleMesh ''MESH1711'' [1]) \<and> (1::nat) \<in> set (material (sampleMesh ''MESH1711'' [1])) \<and>
   toLowerCase (name (sampleMesh ''MESH1711'' [1])) \<in>
     set (map toLowerCase (meshesFor STRIP_MESHES_BY_MODEL
       (modelId (props29 Fiberglass False White (Some ''#bcbcbcff''))))) \<and>
   mat_color (colorCallback (props29 Fiberglass False White (Some ''#bcbcbcff''))
       \<lparr>white = None, grey = None\<rparr> (sampleMesh ''MESH1711'' [1])
       (\<lambda>i. stdMaterial ''deck_mat'' ''#111111'') 1) = ''#FFFDFC'' \<and>
   softDeckRule ((props29 Fiberglass False White (Some ''#bcbcbcff''))\<lparr>softDeckColor := Some []\<rparr>)
     (sampleMesh ''Mesh304'' [0]) (\<lambda>i. stdMaterial ''deck_mat'' ''#111111'') =
   (\<lambda>i. stdMaterial ''deck_mat'' ''#111111'')"
  using soft_deck_pair_selection
    [where p = "props29 Fiberglass False White (Some ''#bcbcbcff'')" and key = "''#bcbcbcff''"
      and deck = "sampleMesh ''Mesh304'' [0]" and i = 0
      and st = "\<lambda>i. stdMaterial ''deck_mat'' ''#111111''"
      and oc = "\<lparr>white = None, grey = None\<rparr>"
      and strip = "sampleMesh ''MESH1711'' [1]" and k = 1]
  by (simp add: meshesFor_def SOFT_DECK_MESHES_BY_MODEL_def STRIP_MESHES_BY_MODEL_def
      toLowerCase_def toLowerChar_def toUpperCase_def toUpperChar_def)

text \<open>
  Claim C8, as stated, says that toggling the material type never alters the colour of a
  hull slot. The material-type rule recolours every standard material of a mesh of its
  list, whatever the material is called: a material named \<open>hull_white\<close> bound to
  \<open>mesh1700\<close> ends at \<open>#C7C7C7\<close> under fiberglass and at \<open>#0A0C10\<close> after the
  toggle to carbon.
\<close>

theorem material_type_toggle_recolors_hull_slot_on_material_mesh:
  "isHullMaterial (stdMaterial ''hull_white'' ''#F0F0F0'') \<and>
   mat_color (applyColors (props29 Fiberglass False White None)
       \<lparr>white = Some ''#F0F0F0'', grey = None\<rparr> (sampleMesh ''mesh1700'' [0])
       (\<lambda>i. stdMaterial ''hull_white'' ''#F0F0F0'') 0) = ''#C7C7C7'' \<and>
   mat_color (applyColors (props29 FullCarbon False White None)
       \<lparr>white = Some ''#F0F0F0'', grey = None\<rparr> (sampleMesh ''mesh1700'' [0])
       (applyColors (props29 Fiberglass False White None)
          \<lparr>white = Some ''#F0F0F0'', grey = None\<rparr> (sampleMesh ''mesh1700'' [0])
          (\<lambda>i. stdMaterial ''hull_white'' ''#F0F0F0'')) 0) = ''#0A0C10''"
  by (simp add: applyColors_def mat_color_colorCallback_bound standard_colorCallback
      truthy_def isHullMaterial_def isMaterialTypeMesh_def softDeckMeshes_def stripMeshes_def
      meshesFor_def MATERIAL_MESHES_BY_MODEL_def SOFT_DECK_MESHES_BY_MODEL_def
      STRIP_MESHES_BY_MODEL_def toLowerCase_def toLowerChar_def)

text \<open>
  Claim C8, amended. After a colour pass, a second pass that differs only in the hull
  settings (override colour, override flag, colour mode) leaves the colour of every
  material that is not a hull slot as it was. A standard material of a mesh of the
  material-type list that is not a hull slot and is not also bound to a soft deck or
  strip mesh has the colour of the material type, \<open>#C7C7C7\<close> for fiberglass and
  \<open>#0A0C10\<close> for carbon, whatever the hull settings are. A hull slot that is not bound
  to a mesh of the material-type list keeps its colour through any sequence of passes
  that differ only in the material type.
\<close>

theorem hull_and_material_type_rules_do_not_leak:
  "(\<not> isHullMaterial (st j) \<longrightarrow>
      mat_color (applyColors (p\<lparr>color := c, useCustomColor := u, hullColorMode := h\<rparr>) oc scene
                  (applyColors p oc scene st) j) =
      mat_color (applyColors p oc scene st j)) \<and>
   (m \<in> set (traverse scene) \<and> isMesh m \<and> isMaterialTypeMesh p m \<and>
    k \<in> set (material m) \<and> standard (st k) \<and> \<not> isHullMaterial (st k) \<and>
    filter (\<lambda>child. isMesh child \<and> k \<in> set (material child) \<and>
                     (isSoftDeckMesh p child \<or> isStripMesh p child)) (traverse scene) = [] \<longrightarrow>
      mat_color (applyColors p oc scene st k) =
        (if materialType p = FullCarbon then ''#0A0C10'' else ''#C7C7C7'')) \<and>
   (isHullMaterial (st l) \<and>
    filter (\<lambda>child. isMesh child \<and> l \<in> set (material child) \<and> isMaterialTypeMesh p child)
      (traverse scene) = [] \<longrightarrow>
      mat_color (fold (\<lambda>t. applyColors (p\<lparr>materialType := t\<rparr>) oc scene) ts
                  (applyColors p oc scene st) l) =
      mat_color (applyColors p oc scene st l))"
proof (intro conjI impI)
  assume nh: "\<not> isHullMaterial (st j)"
  let ?p' = "p\<lparr>color := c, useCustomColor := u, hullColorMode := h\<rparr>"
  let ?s1 = "applyColors p oc scene st"
  have "(mat_color (fold (colorCallback p oc) (traverse scene) st j) = mat_color (st j) \<and>
         mat_color (fold (colorCallback ?p' oc) (traverse scene) ?s1 j) = mat_color (?s1 j)) \<or>
        mat_color (fold (colorCallback p oc) (traverse scene) st j) =
        mat_color (fold (colorCallback ?p' oc) (traverse scene) ?s1 j)"
  proof (rule fold_colorCallback_dichotomy [where p = p and p' = "?p'" and s = st and s' = "?s1"])
    show "modelId ?p' = modelId p" "softDeckColor ?p' = softDeckColor p" by simp_all
    show "mat_name (?s1 j) = mat_name (st j)" "standard (?s1 j) = standard (st j)"
      by (simp_all add: applyColors_def fold_colorCallback_fields)
    show "isHullMaterial (st j) \<Longrightarrow>
      color ?p' = color p \<and> useCustomColor ?p' = useCustomColor p \<and>
      hullColorMode ?p' = hullColorMode p"
      using nh by simp
    show "\<And>child. materialType ?p' = materialType p" by simp
  qed
  then show "mat_color (applyColors ?p' oc scene ?s1 j) = mat_color (?s1 j)"
    by (auto simp add: applyColors_def)
next
  assume a: "m \<in> set (traverse scene) \<and> isMesh m \<and> isMaterialTypeMesh p m \<and>
    k \<in> set (material m) \<and> standard (st k) \<and> \<not> isHullMaterial (st k) \<and>
    filter (\<lambda>child. isMesh child \<and> k \<in> set (material child) \<and>
                     (isSoftDeckMesh p child \<or> isStripMesh p child)) (traverse scene) = []"
  have "mat_color (fold (colorCallback p oc) (traverse scene) st k) =
     (if \<exists>mesh \<in> set (traverse scene). isMesh mesh \<and> k \<in> set (material mesh) \<and>
           isMaterialTypeMesh p mesh
      then (if materialType p = FullCarbon then ''#0A0C10'' else ''#C7C7C7'')
      else mat_color (st k))"
  proof (rule fold_colorCallback_materialType)
    show "standard (st k)" "\<not> isHullMaterial (st k)" using a by simp_all
    fix child
    assume "child \<in> set (traverse scene)" "isMesh child" "k \<in> set (material child)"
    then show "\<not> (truthy (softDeckColor p) \<and> (isSoftDeckMesh p child \<or> isStripMesh p child))"
      using a filter_empty_iff
        [of "\<lambda>child. isMesh child \<and> k \<in> set (material child) \<and>
                     (isSoftDeckMesh p child \<or> isStripMesh p child)" "traverse scene" child]
      by blast
  qed
  moreover have "\<exists>mesh \<in> set (traverse scene). isMesh mesh \<and> k \<in> set (material mesh) \<and>
           isMaterialTypeMesh p mesh"
    using a by blast
  ultimately show "mat_color (applyColors p oc scene st k) =
        (if materialType p = FullCarbon then ''#0A0C10'' else ''#C7C7C7'')"
    by (simp add: applyColors_def)
next
  assume a: "isHullMaterial (st l) \<and>
    filter (\<lambda>child. isMesh child \<and> l \<in> set (material child) \<and> isMaterialTypeMesh p child)
      (traverse scene) = []"
  let ?s1 = "applyColors p oc scene st"
  have none: "\<And>child. child \<in> set (traverse scene) \<Longrightarrow> isMesh child \<Longrightarrow>
      l \<in> set (material child) \<Longrightarrow> \<not> isMaterialTypeMesh p child"
    using a filter_empty_iff
      [of "\<lambda>child. isMesh child \<and> l \<in> set (material child) \<and> isMaterialTypeMesh p child"
        "traverse scene"]
    by blast
  have step: "mat_color (applyColors (p\<lparr>materialType := t\<rparr>) oc scene s l) = mat_color (?s1 l)"
    if s: "mat_name (s l) = mat_name (st l)" "standard (s l) = standard (st l)"
      "mat_color (s l) = mat_color (?s1 l)" for t s
  proof -
    let ?p' = "p\<lparr>materialType := t\<rparr>"
    have "(mat_color (fold (colorCallback p oc) (traverse scene) st l) = mat_color (st l) \<and>
           mat_color (fold (colorCallback ?p' oc) (traverse scene) s l) = mat_color (s l)) \<or>
          mat_color (fold (colorCallback p oc) (traverse scene) st l) =
          mat_color (fold (colorCallback ?p' oc) (traverse scene) s l)"
    proof (rule fold_colorCallback_dichotomy [where p = p and p' = "?p'" and s = st and s' = s])
      show "modelId ?p' = modelId p" "softDeckColor ?p' = softDeckColor p" by simp_all
      show "mat_name (s l) = mat_name (st l)" "standard (s l) = standard (st l)"
        using s by simp_all
      show "isHullMaterial (st l) \<Longrightarrow>
        color ?p' = color p \<and> useCustomColor ?p' = useCustomColor p \<and>
        hullColorMode ?p' = hullColorMode p"
        by simp
      show "\<And>child. child \<in> set (traverse scene) \<Longrightarrow> isMesh child \<Longrightarrow>
        l \<in> set (material child) \<Longrightarrow> isMaterialTypeMesh p child \<Longrightarrow>
        materialType ?p' = materialType p"
        using none by blast
    qed
    then show ?thesis using s(3) by (auto simp add: applyColors_def)
  qed
  have "mat_name (fold (\<lambda>t. applyColors (p\<lparr>materialType := t\<rparr>) oc scene) ts s l) =
          mat_name (st l) \<and>
        standard (fold (\<lambda>t. applyColors (p\<lparr>materialType := t\<rparr>) oc scene) ts s l) =
          standard (st l) \<and>
        mat_color (fold (\<lambda>t. applyColors (p\<lparr>materialType := t\<rparr>) oc scene) ts s l) =
          mat_color (?s1 l)"
    if "mat_name (s l) = mat_name (st l)" "standard (s l) = standard (st l)"
      "mat_color (s l) = mat_color (?s1 l)" for s
    using that
  proof (induction ts arbitrary: s)
    case Nil
    then show ?case by simp
  next
    case (Cons t ts)
    let ?s' = "applyColors (p\<lparr>materialType := t\<rparr>) oc scene s"
    have "mat_name (?s' l) = mat_name (st l)" "standard (?s' l) = standard (st l)"
      using Cons.prems by (simp_all add: applyColors_def fold_colorCallback_fields)
    moreover have "mat_color (?s' l) = mat_color (?s1 l)"
      using step [of s t] Cons.prems by simp
    ultimately show ?case using Cons.IH [of ?s'] by simp
  qed
  from this [of ?s1]
  show "mat_color (fold (\<lambda>t. applyColors (p\<lparr>materialType := t\<rparr>) oc scene) ts ?s1 l) =
      mat_color (?s1 l)"
    by (simp add: applyColors_def fold_colorCallback_fields)
qed

theorem hull_and_material_type_rules_do_not_leak_witness:
  "\<not> isHullMaterial (sampleMaterials 2) \<and>
   mat_color (applyColors
       ((props29 Fiberglass False White (Some ''#9D622BFF''))
          \<lparr>color := ''#00FF00'', useCustomColor := True, hullColorMode := Grey\<rparr>)
       \<lparr>white = Some ''#F0F0F0'', grey = None\<rparr> sampleBoat
       (applyColors (props29 Fiberglass False White (Some ''#9D622BFF''))
          \<lparr>white = Some ''#F0F0F0'', grey = None\<rparr> sampleBoat sampleMaterials) 2) =
   mat_color (applyColors (props29 Fiberglass False White (Some ''#9D622BFF''))
       \<lparr>white = Some ''#F0F0F0'', grey = None\<rparr> sampleBoat sampleMaterials 2) \<and>
   sampleMesh ''mesh1700'' [1] \<in> set (traverse sampleBoat) \<and>
   isMesh (sampleMesh ''mesh1700'' [1]) \<and>
   isMaterialTypeMesh (props29 Fiberglass False White (Some ''#9D622BFF''))
     (sampleMesh ''mesh1700'' [1]) \<and>
   1 \<in> set (material (sampleMesh ''mesh1700'' [1])) \<and> standard (sampleMaterials 1) \<and>
   \<not> isHullMaterial (sampleMaterials 1) \<and>
   filter (\<lambda>child. isMesh child \<and> 1 \<in> set (material child) \<and>
        (isSoftDeckMesh (props29 Fiberglass False White (Some ''#9D622BFF'')) child \<or>
         isStripMesh (props29 Fiberglass False White (Some ''#9D622BFF'')) child))
     (traverse sampleBoat) = [] \<and>
   mat_color (applyColors (props29 Fiberglass False White (Some ''#9D622BFF''))
       \<lparr>white = Some ''#F0F0F0'', grey = None\<rparr> sampleBoat sampleMaterials 1) = ''#C7C7C7'' \<and>
   isHullMaterial (sampleMaterials 0) \<and>
   filter (\<lambda>child. isMesh child \<and> 0 \<in> set (material child) \<and>
        isMaterialTypeMesh (props29 Fiberglass False White (Some ''#9D622BFF'')) child)
     (traverse sampleBoat) = [] \<and>
   mat_color (fold (\<lambda>t. applyColors
         ((props29 Fiberglass False White (Some ''#9D622BFF''))\<lparr>materialType := t\<rparr>)
         \<lparr>white = Some ''#F0F0F0'', grey = None\<rparr> sampleBoat)
       [FullCarbon, Fiberglass, FullCarbon]
       (applyColors (props29 Fiberglass False White (Some ''#9D622BFF''))
          \<lparr>white = Some ''#F0F0F0'', grey = None\<rparr> sampleBoat sampleMaterials) 0) =
   mat_color (applyColors (props29 Fiberglass False White (Some ''#9D622BFF''))
       \<lparr>white = Some ''#F0F0F0'', grey = None\<rparr> sampleBoat sampleMaterials 0)"
proof -
  have hyps:
    "\<not> isHullMaterial (sampleMaterials 2)"
    "sampleMesh ''mesh1700'' [1] \<in> set (traverse sampleBoat) \<and>
     isMesh (sampleMesh ''mesh1700'' [1]) \<and>
     isMaterialTypeMesh (props29 Fiberglass False White (Some ''#9D622BFF''))
       (sampleMesh ''mesh1700'' [1]) \<and>
     1 \<in> set (material (sampleMesh ''mesh1700'' [1])) \<and> standard (sampleMaterials 1) \<and>
     \<not> isHullMaterial (sampleMaterials 1) \<and>
     filter (\<lambda>child. isMesh child \<and> 1 \<in> set (material child) \<and>
          (isSoftDeckMesh (props29 Fiberglass False White (Some ''#9D622BFF'')) child \<or>
           isStripMesh (props29 Fiberglass False White (Some ''#9D622BFF'')) child))
       (traverse sampleBoat) = []"
    "isHullMaterial (sampleMaterials 0) \<and>
     filter (\<lambda>child. isMesh child \<and> 0 \<in> set (material child) \<and>
          isMaterialTypeMesh (props29 Fiberglass False White (Some ''#9D622BFF'')) child)
       (traverse sampleBoat) = []"
    by (simp_all add: isHullMaterial_def isMaterialTypeMesh_def isSoftDeckMesh_def
        isStripMesh_def softDeckMeshes_def stripMeshes_def meshesFor_def
        MATERIAL_MESHES_BY_MODEL_def SOFT_DECK_MESHES_BY_MODEL_def STRIP_MESHES_BY_MODEL_def
        toLowerCase_def toLowerChar_def)
  show ?thesis
    using hyps hull_and_material_type_rules_do_not_leak
      [where st = sampleMaterials and j = 2
        and p = "props29 Fiberglass False White (Some ''#9D622BFF'')"
        and c = "''#00FF00''" and u = True and h = Grey
        and oc = "\<lparr>white = Some ''#F0F0F0'', grey = None\<rparr>" and scene = sampleBoat
        and m = "sampleMesh ''mesh1700'' [1]" and k = 1 and l = 0
        and ts = "[FullCarbon, Fiberglass, FullCarbon]"]
    by simp
qed

text \<open>
  Claim C10. Without a soft deck key the soft deck and strip rule returns the materials
  as it got them, for every model and every other prop; this is the case whenever
  \<open>soft-deck\<close> is not among the selected option ids, because the viewer is then given
  no key. The whole colour pass then leaves a material untouched unless it is a hull slot
  or bound to a mesh of the material-type list, and a soft deck or strip mesh is never
  treated as a mesh of that list.
\<close>

theorem no_soft_deck_key_skips_accent_rule:
  "softDeckRule (p\<lparr>softDeckColor := None\<rparr>) child st = st \<and>
   (''soft-deck'' \<notin> set optionIds \<longrightarrow>
      softDeckRule (p\<lparr>softDeckColor := viewerSoftDeckColor optionIds key\<rparr>) child st = st) \<and>
   (\<not> isHullMaterial (st j) \<and>
    filter (\<lambda>child. isMesh child \<and> j \<in> set (material child) \<and> isMaterialTypeMesh p child)
      (traverse scene) = [] \<longrightarrow>
      applyColors (p\<lparr>softDeckColor := None\<rparr>) oc scene st j = st j) \<and>
   (isSoftDeckMesh p child \<or> isStripMesh p child \<longrightarrow> \<not> isMaterialTypeMesh p child)"
proof (intro conjI impI)
  show "softDeckRule (p\<lparr>softDeckColor := None\<rparr>) child st = st"
    by (simp add: softDeckRule_def truthy_def)
next
  assume "''soft-deck'' \<notin> set optionIds"
  then show "softDeckRule (p\<lparr>softDeckColor := viewerSoftDeckColor optionIds key\<rparr>) child st = st"
    by (simp add: softDeckRule_def truthy_def viewerSoftDeckColor_def)
next
  assume a: "\<not> isHullMaterial (st j) \<and>
    filter (\<lambda>child. isMesh child \<and> j \<in> set (material child) \<and> isMaterialTypeMesh p child)
      (traverse scene) = []"
  let ?p = "p\<lparr>softDeckColor := None\<rparr>"
  have "fold (colorCallback ?p oc) (traverse scene) st j = st j"
  proof (rule fold_colorCallback_unchanged)
    show "\<not> truthy (softDeckColor ?p)" by (simp add: truthy_def)
    show "\<not> isHullMaterial (st j)" using a by simp
    fix child
    assume "child \<in> set (traverse scene)" "isMesh child" "j \<in> set (material child)"
    then have "\<not> isMaterialTypeMesh p child"
      using a filter_empty_iff
        [of "\<lambda>child. isMesh child \<and> j \<in> set (material child) \<and> isMaterialTypeMesh p child"
          "traverse scene" child]
      by blast
    then show "\<not> isMaterialTypeMesh ?p child"
      by (simp add: isMaterialTypeMesh_modelId [of ?p p])
  qed
  then show "applyColors ?p oc scene st j = st j" by (simp add: applyColors_def)
next
  assume "isSoftDeckMesh p child \<or> isStripMesh p child"
  then show "\<not> isMaterialTypeMesh p child"
    by (auto simp add: isSoftDeckMesh_def isStripMesh_def isMaterialTypeMesh_def Let_def)
qed

theorem no_soft_deck_key_skips_accent_rule_witness:
  "softDeckRule ((props29 Fiberglass False White (Some ''#9D622BFF''))\<lparr>softDeckColor := None\<rparr>)
     (sampleMesh ''Mesh304'' [2]) sampleMaterials = sampleMaterials \<and>
   ''soft-deck'' \<notin> set [''bimini'', ''anchor''] \<and>
   softDeckRule ((props29 Fiberglass False White (Some ''#9D622BFF''))
       \<lparr>softDeckColor := viewerSoftDeckColor [''bimini'', ''anchor''] (Some ''#9D622BFF'')\<rparr>)
     (sampleMesh ''Mesh304'' [2]) sampleMaterials = sampleMaterials \<and>
   \<not> isHullMaterial (sampleMaterials 2) \<and>
   filter (\<lambda>child. isMesh child \<and> 2 \<in> set (material child) \<and>
        isMaterialTypeMesh (props29 Fiberglass False White (Some ''#9D622BFF'')) child)
     (traverse sampleBoat) = [] \<and>
   applyColors ((props29 Fiberglass False White (Some ''#9D622BFF''))\<lparr>softDeckColor := None\<rparr>)
     \<lparr>white = None, grey = None\<rparr> sampleBoat sampleMaterials 2 = sampleMaterials 2 \<and>
   isSoftDeckMesh (props29 Fiberglass False White (Some ''#9D622BFF''))
     (sampleMesh ''Mesh304'' [2]) \<and>
   \<not> isMaterialTypeMesh (props29 Fiberglass False White (Some ''#9D622BFF''))
     (sampleMesh ''Mesh304'' [2])"
proof -
  have hyps:
    "''soft-deck'' \<notin> set [''bimini'', ''anchor'']"
    "\<not> isHullMaterial (sampleMaterials 2) \<and>
     filter (\<lambda>child. isMesh child \<and> 2 \<in> set (material child) \<and>
          isMaterialTypeMesh (props29 Fiberglass False White (Some ''#9D622BFF'')) child)
       (traverse sampleBoat) = []"
    "isSoftDeckMesh (props29 Fiberglass False White (Some ''#9D622BFF''))
       (sampleMesh ''Mesh304'' [2])"
    by (simp_all add: isHullMaterial_def isMaterialTypeMesh_def isSoftDeckMesh_def
        softDeckMeshes_def stripMeshes_def meshesFor_def
        MATERIAL_MESHES_BY_MODEL_def SOFT_DECK_MESHES_BY_MODEL_def STRIP_MESHES_BY_MODEL_def
        toLowerCase_def toLowerChar_def)
  show ?thesis
    using hyps no_soft_deck_key_skips_accent_rule
      [where p = "props29 Fiberglass False White (Some ''#9D622BFF'')"
        and child = "sampleMesh ''Mesh304'' [2]" and st = sampleMaterials
        and optionIds = "[''bimini'', ''anchor'']" and key = "Some ''#9D622BFF''"
        and j = 2 and scene = sampleBoat and oc = "\<lparr>white = None, grey = None\<rparr>"]
    by simp
qed

section \<open>The claim about the motion animator\<close>

text \<open>
  Claim C9. In ocean mode the frame callback sets the height to \<open>0.32\<close>, the pitch to
  \<open>sin (1.2 t) * 0.0075\<close> and the roll to \<open>cos (1.1 t) * 0.00625\<close>: the pitch stays
  within \<open>0.0075\<close> and reaches it, the roll stays within \<open>0.00625\<close> and reaches it,
  and the roll amplitude is the smaller one; the water is rendered. In dry dock mode the
  pitch and the roll are zero at every time, the height is \<open>0.34\<close>, and the water is
  not rendered. In both modes the other four rotations are reset to zero.
\<close>

theorem rocking_frame_by_wave_mode:
  "rockingFrame Ocean t (Some g) =
     Some (g\<lparr>boat_rotation_x := 0, boat_rotation_y := 0,
             boat_rotation_z := cos (t * 1.1) * 0.00625,
             boat_position_y := 0.32, pitchGroup_rotation_x := sin (t * 1.2) * 0.0075,
             pitchGroup_rotation_y := 0, pitchGroup_rotation_z := 0\<rparr>) \<and>
   \<bar>sin (t * 1.2) * 0.0075\<bar> \<le> (0.0075::real) \<and>
   \<bar>cos (t * 1.1) * 0.00625\<bar> \<le> (0.00625::real) \<and>
   (0.00625::real) < 0.0075 \<and>
   pitchGroup_rotation_x (the (rockingFrame Ocean (pi / 2.4) (Some g))) = 0.0075 \<and>
   boat_rotation_z (the (rockingFrame Ocean 0 (Some g))) = 0.00625 \<and>
   rendersOceanWater Ocean \<and>
   rockingFrame DryDock t (Some g) =
     Some (g\<lparr>boat_rotation_x := 0, boat_rotation_y := 0, boat_rotation_z := 0,
             boat_position_y := 0.34, pitchGroup_rotation_x := 0,
             pitchGroup_rotation_y := 0, pitchGroup_rotation_z := 0\<rparr>) \<and>
   \<not> rendersOceanWater DryDock \<and>
   rockingFrame Ocean t None = None \<and> rockingFrame DryDock t None = None"
proof -
  have s: "\<bar>sin (t * 1.2) * 0.0075\<bar> \<le> (0.0075::real)"
    using abs_sin_le_one [of "t * 1.2"] by (simp add: abs_mult)
  have c: "\<bar>cos (t * 1.1) * 0.00625\<bar> \<le> (0.00625::real)"
    using abs_cos_le_one [of "t * 1.1"] by (simp add: abs_mult)
  have "pi / 2.4 * 1.2 = pi / 2" by simp
  then have top: "sin (pi / 2.4 * 1.2) = 1" by simp
  show ?thesis
    using s c top by (simp add: rockingFrame_def Let_def pitchOffset_def rendersOceanWater_def)
qed

section \<open>The claim about the pan-only button\<close>

text \<open>
  Claim C5 says that while the right button is held the camera height is frozen at its
  value at press time. \<open>onDown\<close> records the height only while the ref is null, and
  nothing sets the ref back to null, so the height recorded is that of the first press.
  In the run below (each press and release reaches the handler twice, once as a mouse and
  once as a pointer event) the button is pressed at height \<open>2.5\<close> and released, the
  camera is moved to height \<open>4\<close>, and the button is pressed again: the next frame
  writes \<open>2.5\<close> into the camera height.
\<close>

theorem second_right_press_snaps_camera_to_first_press_height:
  "camera_position_y
     (runEvents [Down 2, Down 2, Up 2, Up 2, CameraMoved 4, Down 2, Down 2]
        \<lparr>rmbActiveRef = False, initialCameraYRef = None,
         controlsRef = Some \<lparr>enableRotate = True, enableZoom = True, enablePan = True\<rparr>,
         camera_position_y = 2.5\<rparr>) = 4 \<and>
   runEvents [Down 2, Down 2, Up 2, Up 2, CameraMoved 4, Down 2, Down 2, Frame]
     \<lparr>rmbActiveRef = False, initialCameraYRef = None,
      controlsRef = Some \<lparr>enableRotate = True, enableZoom = True, enablePan = True\<rparr>,
      camera_position_y = 2.5\<rparr> =
   \<lparr>rmbActiveRef = True, initialCameraYRef = Some 2.5,
    controlsRef = Some \<lparr>enableRotate = False, enableZoom = False, enablePan = True\<rparr>,
    camera_position_y = 2.5\<rparr>"
  by (simp add: runEvents_def onDown_def onUp_def controlsFrame_def Let_def)

section \<open>The claim about the cloned scene\<close>

lemma clone_same: "clone obj = obj"
proof (induction obj)
  case (Object3D n im dm ms v cs ch)
  have "map clone ch = map (\<lambda>c. c) ch"
    by (rule map_cong) (simp_all add: Object3D)
  then show ?case by simp
qed

text \<open>
  Claim C6 says that every mutation of a session touches only the private clone and never
  the cached original or one of its materials. The comment above the clone says the same
  ("this ensures we always get original materials"). The clone has nodes of its own, so
  what the passes write into a node stays in the clone; its meshes are bound to the
  material objects of the original. In the run below the hull mesh of the cached boat
  holds material \<open>0\<close>, whose colour is \<open>#F0F0F0\<close>. The colour pass on the clone with
  the custom override \<open>#FF6B00\<close> leaves that material at \<open>#FF6B00\<close>, and the
  snapshot taken from the next clone of the cached boat is \<open>#FF6B00\<close>, not the
  original colour.
\<close>

theorem custom_hull_color_reaches_material_of_original:
  "sampleMesh ''hull'' [0] \<in> set (traverse sampleBoat) \<and>
   material (sampleMesh ''hull'' [0]) = [0] \<and>
   mat_color (sampleMaterials 0) = ''#F0F0F0'' \<and>
   white (captureOriginalColors (clone sampleBoat) sampleMaterials) = Some ''#F0F0F0'' \<and>
   mat_color (applyColors (props29 Fiberglass True White None)
       (captureOriginalColors (clone sampleBoat) sampleMaterials)
       (clone sampleBoat) sampleMaterials 0) = ''#FF6B00'' \<and>
   white (captureOriginalColors (clone sampleBoat)
       (applyColors (props29 Fiberglass True White None)
          (captureOriginalColors (clone sampleBoat) sampleMaterials)
          (clone sampleBoat) sampleMaterials)) = Some ''#FF6B00''"
proof -
  let ?p = "props29 Fiberglass True White None"
  let ?oc = "captureOriginalColors sampleBoat sampleMaterials"
  let ?st = "applyColors ?p ?oc sampleBoat sampleMaterials"
  have lists:
    "\<not> isMaterialTypeMesh ?p (sampleMesh ''hull'' [0])"
    "\<not> isSoftDeckMesh ?p (sampleMesh ''hull'' [0])"
    "\<not> isStripMesh ?p (sampleMesh ''hull'' [0])"
    by (simp_all add: isMaterialTypeMesh_def isSoftDeckMesh_def isStripMesh_def
        softDeckMeshes_def stripMeshes_def meshesFor_def MATERIAL_MESHES_BY_MODEL_def
        SOFT_DECK_MESHES_BY_MODEL_def STRIP_MESHES_BY_MODEL_def toLowerCase_def
        toLowerChar_def)
  have hull: "isHullMaterial (sampleMaterials 0)"
    by (simp add: isHullMaterial_def toLowerCase_def toLowerChar_def)
  have names: "mat_name (applyColors p oc sc st i) = mat_name (st i)"
    "standard (applyColors p oc sc st i) = standard (st i)" for p oc sc st i
    unfolding applyColors_def
    by (rule fold_colorCallback_fields(1), rule fold_colorCallback_fields(2))
  have snap: "white ?oc = Some ''#F0F0F0''"
    by (simp add: captureOriginalColors_first toLowerCase_def toLowerChar_def)
  have col: "mat_color (?st 0) = ''#FF6B00''"
    using hull lists
    by (simp add: applyColors_def mat_color_colorCallback_bound standard_colorCallback
        colorCallback_unbound mat_color_applyHullColor isHullMaterial_colorCallback
        truthy_def)
  have again: "white (captureOriginalColors sampleBoat ?st) = Some ''#FF6B00''"
    using col by (simp add: captureOriginalColors_first names toLowerCase_def toLowerChar_def)
  show ?thesis
    using snap col again by (simp add: clone_same)
qed

end
